theory Spec2Isabelle
  imports Complex_Main "HOL-Library.Word" "HOL-Library.Log_Nat"
begin

unbundle bit_operations_syntax

section \<open>Binary floating point\<close>

text \<open>
  The firmware computes with C++ \<open>float\<close> (binary32, 24 significant bits) and
  \<open>double\<close> (binary64, 53 significant bits). A floating-point value is modelled by the
  real number it denotes, and every operation rounds its exact result to the nearest
  value with \<open>p\<close> significant bits, ties to even. The exponent range is not modelled (no
  overflow to infinity, no subnormal numbers): for the inputs the hardware delivers, every
  nonzero magnitude that occurs below lies between \<open>2\<^sup>-\<^sup>2\<^sup>0\<close> and \<open>2\<^sup>2\<^sup>8\<close>, far inside the
  exponent range of both formats.
\<close>

text \<open>Round to the nearest integer, ties to the even one.\<close>

definition rne :: "real \<Rightarrow> int" where
  "rne y = (let f = \<lfloor>y\<rfloor>; d = y - of_int f in
     if d < 1 / 2 then f else if 1 / 2 < d then f + 1 else if even f then f else f + 1)"

text \<open>The binary exponent of a positive real: \<open>2 powi expo x \<le> x < 2 powi (expo x + 1)\<close>.\<close>

definition expo :: "real \<Rightarrow> int" where
  "expo x = (if 1 \<le> x then bitlen \<lfloor>x\<rfloor> - 1 else - bitlen (\<lceil>1 / x\<rceil> - 1))"

definition rnd :: "nat \<Rightarrow> real \<Rightarrow> real" where
  "rnd p x = (if x = 0 then 0 else
     let q = 2 powi (expo \<bar>x\<bar> - int p + 1) in of_int (rne (x / q)) * q)"

definition f32 :: "real \<Rightarrow> real" where
  "f32 x = rnd 24 x"

definition f64 :: "real \<Rightarrow> real" where
  "f64 x = rnd 53 x"

text \<open>
  A division whose divisor is computed at run time. The real-valued model has no
  infinity, so a zero divisor is a fault of its own.
\<close>

datatype fault = DivisionByZero

definition fdiv :: "real \<Rightarrow> real \<Rightarrow> fault + real" where
  "fdiv a b = (if b = 0 then Inl DivisionByZero else Inr (f32 (a / b)))"

definition ddiv :: "real \<Rightarrow> real \<Rightarrow> fault + real" where
  "ddiv a b = (if b = 0 then Inl DivisionByZero else Inr (f64 (a / b)))"

text \<open>The C library's \<open>pow\<close> on doubles, taken as correctly rounded.\<close>

definition pow :: "real \<Rightarrow> real \<Rightarrow> real" where
  "pow x y = f64 (x powr y)"

text \<open>The cast \<open>(int)x\<close> truncates towards zero.\<close>

definition to_int :: "real \<Rightarrow> int" where
  "to_int x = (if 0 \<le> x then \<lfloor>x\<rfloor> else \<lceil>x\<rceil>)"

section \<open>Configuration (sensor.h, network.h)\<close>

definition ENABLE_VEML7700 :: bool where
  "ENABLE_VEML7700 = False"

definition ENABLE_GL5539 :: bool where
  "ENABLE_GL5539 = True"

definition ENABLE_ENS160 :: bool where
  "ENABLE_ENS160 = True"

definition ENABLE_AHT21 :: bool where
  "ENABLE_AHT21 = True"

definition GL5539_R_PULLUP :: int where
  "GL5539_R_PULLUP = 10000"

definition GL5539_ADC_MAX :: int where
  "GL5539_ADC_MAX = 1024"

definition TARGET_ROOM :: string where
  "TARGET_ROOM = ''living_room''"

section \<open>Program state\<close>

text \<open>
  A JSON document as ArduinoJson builds it, before serialisation. One line written to
  \<open>Serial\<close>: the text of the print statement (in English where the source prints
  Chinese) and the values it formats; a serialised document is given as the document.
\<close>

datatype json =
    JStr string
  | JInt int
  | JNum real
  | JBool bool
  | JArr "json list"
  | JObj "(string \<times> json) list"

datatype arg = AInt int | AFloat real | AStr string | ABool bool | AJson json

datatype line = Line string "arg list"

text \<open>
  The global variables of sensor.h and network.h, and the two output channels: the lines
  printed to \<open>Serial\<close> and the documents handed to \<open>webSocket.sendTXT\<close>, oldest first.
  \<open>unsigned long\<close> has 32 bits on the ESP8266.
\<close>

record state =
  g_temperature :: real
  g_humidity :: real
  g_co2 :: int
  g_voc :: int
  g_light_level :: int
  g_motion :: bool
  g_sensor_data_valid :: bool
  g_last_sensor_update :: "32 word"
  wifiConnected :: bool
  wsConnected :: bool
  serial :: "line list"
  ws_tx :: "json list"

text \<open>The initialisers of the globals.\<close>

definition boot :: state where
  "boot = \<lparr> g_temperature = 23.5, g_humidity = 55, g_co2 = 420, g_voc = 15,
     g_light_level = 300, g_motion = False, g_sensor_data_valid = False,
     g_last_sensor_update = 0, wifiConnected = False, wsConnected = False,
     serial = [], ws_tx = [] \<rparr>"

definition print :: "string \<Rightarrow> arg list \<Rightarrow> state \<Rightarrow> state" where
  "print fmt args s = s\<lparr>serial := serial s @ [Line fmt args]\<rparr>"

text \<open>
  \<open>random(howsmall, howbig)\<close> of the Arduino core: \<open>raw\<close> is the next output of the
  generator, reduced to \<open>howsmall \<le> r < howbig\<close>.
\<close>

definition random :: "int \<Rightarrow> int \<Rightarrow> nat \<Rightarrow> int" where
  "random howsmall howbig raw =
     (if howbig \<le> howsmall then howsmall else howsmall + int raw mod (howbig - howsmall))"

section \<open>Sensor drivers (sensor.h)\<close>

type_synonym byte = "8 word"

text \<open>
  \<open>Wire.requestFrom(addr, n)\<close> fills the receive buffer with at most \<open>n\<close> of the bytes the
  device answers with; \<open>Wire.available()\<close> is the length of the buffer and \<open>Wire.read()\<close>
  takes its bytes in order.
\<close>

definition requestFrom :: "nat \<Rightarrow> byte list \<Rightarrow> byte list" where
  "requestFrom n answer = take n answer"

subsection \<open>Bus scan\<close>

text \<open>
  \<open>scanI2CDevices\<close> probes the addresses 1 to 126; \<open>probe a\<close> is the status of
  \<open>Wire.endTransmission()\<close> for the address \<open>a\<close>. It clears \<open>g_sensor_data_valid\<close> when no
  device answers.
\<close>

definition scanI2CDevices :: "(nat \<Rightarrow> byte) \<Rightarrow> state \<Rightarrow> state" where
  "scanI2CDevices probe s =
     (let found = filter (\<lambda>address. probe address = 0) [1..<127];
          s1 = foldl (\<lambda>t address. print ''found I2C device, address: 0x%02X'' [AInt (int address)] t)
                 (print ''scanning I2C devices...'' [] s) found
      in print [] []
           (if length found = 0
            then (print ''no I2C device found'' [] s1)\<lparr>g_sensor_data_valid := False\<rparr>
            else print ''found %d I2C devices'' [AInt (int (length found))] s1))"

subsection \<open>AHT21: temperature and humidity\<close>

text \<open>
  What the bus gives one call of \<open>readAHT21\<close>: the status of \<open>Wire.endTransmission()\<close>
  (0 is success) and the bytes answered to the read of 6.
\<close>

record aht21_io =
  aht_error :: byte
  aht_answer :: "byte list"

definition aht21_humidity_raw :: "byte \<Rightarrow> byte \<Rightarrow> byte \<Rightarrow> 32 word" where
  "aht21_humidity_raw d1 d2 d3 =
     push_bit 12 (ucast d1) OR push_bit 4 (ucast d2) OR ucast (drop_bit 4 d3)"

definition aht21_humidity :: "32 word \<Rightarrow> real" where
  "aht21_humidity humidity_raw = f32 (f64 (f64 (real (unat humidity_raw) * 100) / 1048576))"

definition aht21_temperature_raw :: "byte \<Rightarrow> byte \<Rightarrow> byte \<Rightarrow> 32 word" where
  "aht21_temperature_raw d3 d4 d5 =
     push_bit 16 (ucast d3 AND 0x0F) OR push_bit 8 (ucast d4) OR ucast d5"

definition aht21_temperature :: "32 word \<Rightarrow> real" where
  "aht21_temperature temperature_raw =
     f32 (f64 (f64 (f64 (real (unat temperature_raw) * 200) / 1048576) - 50))"

definition readAHT21 :: "aht21_io \<Rightarrow> state \<Rightarrow> bool \<times> state" where
  "readAHT21 io s =
     (if aht_error io \<noteq> 0 then (False, print ''AHT21 send command failed'' [] s)
      else case requestFrom 6 (aht_answer io) of
        [d0, d1, d2, d3, d4, d5] \<Rightarrow>
          if d0 AND 0x80 \<noteq> 0
          then (False, print ''AHT21 device busy, retry later'' [] s)
          else
            let humidity = aht21_humidity (aht21_humidity_raw d1 d2 d3);
                temperature = aht21_temperature (aht21_temperature_raw d3 d4 d5)
            in if - 40 < temperature \<and> temperature < 85 \<and> 0 \<le> humidity \<and> humidity \<le> 100
               then (True,
                 print ''AHT21 - temperature: %.1f C, humidity: %.1f %%''
                   [AFloat temperature, AFloat humidity]
                   (s\<lparr>g_temperature := temperature, g_humidity := humidity\<rparr>))
               else (False, print ''AHT21 data out of normal range'' [] s)
      | _ \<Rightarrow> (False, print ''AHT21 read data failed'' [] s))"

subsection \<open>ENS160: air quality\<close>

text \<open>
  What the bus gives one call of \<open>readENS160\<close>: for each of the four registers (status,
  AQI, TVOC, eCO2) the status of the register-select transmission and the bytes answered
  to the read that follows. The source keeps the status of the first transmission only.
\<close>

record ens160_io =
  status_error :: byte
  status_answer :: "byte list"
  aqi_error :: byte
  aqi_answer :: "byte list"
  tvoc_error :: byte
  tvoc_answer :: "byte list"
  eco2_error :: byte
  eco2_answer :: "byte list"

text \<open>
  \<open>Wire.read() | (Wire.read() << 8)\<close> when two bytes are available, the first byte read
  being the low one; the initial value of the variable otherwise.
\<close>

definition read_u16 :: "16 word \<Rightarrow> byte list \<Rightarrow> 16 word" where
  "read_u16 dflt buf =
     (case buf of lo # hi # _ \<Rightarrow> ucast lo OR push_bit 8 (ucast hi) | _ \<Rightarrow> dflt)"

definition readENS160 :: "ens160_io \<Rightarrow> state \<Rightarrow> bool \<times> state" where
  "readENS160 io s =
     (if status_error io \<noteq> 0 then (False, print ''ENS160 communication failed'' [] s)
      else case requestFrom 1 (status_answer io) of
        status # _ \<Rightarrow>
          if status AND 0x02 \<noteq> 0
          then
            let aqi = (case requestFrom 1 (aqi_answer io) of a # _ \<Rightarrow> a | [] \<Rightarrow> 0);
                tvoc = read_u16 0 (requestFrom 2 (tvoc_answer io));
                co2 = read_u16 400 (requestFrom 2 (eco2_answer io))
            in if 300 < uint co2 \<and> uint co2 < 5000 \<and> uint tvoc < 10000
               then (True,
                 print ''ENS160 - AQI: %d, TVOC: %d ppb, CO2: %d ppm''
                   [AInt (uint aqi), AInt (uint tvoc), AInt (uint co2)]
                   (s\<lparr>g_co2 := uint co2, g_voc := uint tvoc\<rparr>))
               else (False, print ''ENS160 data out of normal range'' [] s)
          else (False, print ''ENS160 data not ready'' [] s)
      | [] \<Rightarrow> (False, print ''ENS160 read status failed'' [] s))"

subsection \<open>GL5539: photoresistor on the analog pin\<close>

text \<open>
  \<open>(float)GL5539_R_PULLUP * adcValue / (GL5539_ADC_MAX - adcValue)\<close>, in \<open>float\<close>. The
  sample \<open>adcValue\<close> is what \<open>analogRead\<close> returns, an \<open>int\<close> (0 to 1024 on the ESP8266).
\<close>

definition ldrResistance :: "int \<Rightarrow> fault + real" where
  "ldrResistance adcValue =
     fdiv (f32 (f32 (of_int GL5539_R_PULLUP) * f32 (of_int adcValue)))
          (f32 (of_int (GL5539_ADC_MAX - adcValue)))"

definition lux_of :: "real \<Rightarrow> fault + real" where
  "lux_of r =
     (if 50000 < r then Inr 1
      else if r < 100 then Inr 2000
      else case ddiv 12500000 (pow r (f64 (7 / 5))) of
             Inl e \<Rightarrow> Inl e
           | Inr v \<Rightarrow> Inr (f32 v))"

definition readGL5539 :: "int \<Rightarrow> state \<Rightarrow> fault + bool \<times> state" where
  "readGL5539 adcValue s =
     (if GL5539_ADC_MAX - 1 \<le> adcValue
      then Inr (False, print ''GL5539 read failed: too dark or sensor fault'' [] s)
      else case ldrResistance adcValue of
        Inl e \<Rightarrow> Inl e
      | Inr r \<Rightarrow>
          (case lux_of r of
             Inl e \<Rightarrow> Inl e
           | Inr lux \<Rightarrow>
               if 0 \<le> lux \<and> lux \<le> 10000 \<and> 10 \<le> adcValue
               then Inr (True,
                 print ''GL5539 - ADC: %d, resistance: %.0f Ohm, light: %.1f lux''
                   [AInt adcValue, AFloat r, AFloat lux]
                   (s\<lparr>g_light_level := to_int lux\<rparr>))
               else Inr (False,
                 print ''GL5539 data abnormal - ADC: %d, resistance: %.0f Ohm, Lux: %.1f''
                   [AInt adcValue, AFloat r, AFloat lux] s)))"

subsection \<open>VEML7700: light sensor on the bus (compiled out)\<close>

record veml7700_io =
  veml_error :: byte
  veml_answer :: "byte list"

definition readVEML7700 :: "veml7700_io \<Rightarrow> state \<Rightarrow> bool \<times> state" where
  "readVEML7700 io s =
     (if veml_error io \<noteq> 0 then (False, print ''VEML7700 communication failed'' [] s)
      else case requestFrom 2 (veml_answer io) of
        lo # hi # _ \<Rightarrow>
          let raw_data = read_u16 0 [lo, hi];
              lux = f32 (f64 (real (unat raw_data) * f64 (576 / 10000)))
          in if 0 \<le> lux \<and> lux < 120000
             then (True,
               print ''VEML7700 - light: %.2f lux'' [AFloat lux]
                 (s\<lparr>g_light_level := to_int lux\<rparr>))
             else (False, print ''VEML7700 data out of normal range'' [] s)
      | _ \<Rightarrow> (False, print ''VEML7700 read data failed'' [] s))"

section \<open>Sensor aggregator and validity gate (sensor.h)\<close>

text \<open>
  What one call of \<open>readAllSensors\<close> takes from outside: the bus and ADC inputs of the
  drivers, the raw output of the random generator, and the value of \<open>millis()\<close>.
\<close>

record poll_io =
  aht21 :: aht21_io
  ens160 :: ens160_io
  veml7700 :: veml7700_io
  adc :: int
  motion_raw :: nat
  poll_millis :: "32 word"

definition when_enabled :: "bool \<Rightarrow> (state \<Rightarrow> bool \<times> state) \<Rightarrow> bool \<times> state \<Rightarrow> bool \<times> state" where
  "when_enabled enabled driver acc =
     (if enabled
      then (let (ok, s') = driver (snd acc) in (if ok then True else fst acc, s'))
      else acc)"

definition readAllSensors :: "poll_io \<Rightarrow> state \<Rightarrow> fault + bool \<times> state" where
  "readAllSensors io s =
     (let a0 = (False, print ''reading all sensor data...'' [] s);
          a1 = when_enabled ENABLE_AHT21 (readAHT21 (aht21 io)) a0;
          a2 = when_enabled ENABLE_ENS160 (readENS160 (ens160 io)) a1;
          a3 = when_enabled ENABLE_VEML7700 (readVEML7700 (veml7700 io)) a2
      in case (if ENABLE_GL5539
               then (case readGL5539 (adc io) (snd a3) of
                       Inl e \<Rightarrow> Inl e
                     | Inr (ok, s') \<Rightarrow> Inr (if ok then True else fst a3, s'))
               else Inr a3) of
           Inl e \<Rightarrow> Inl e
         | Inr (anyDataRead, s4) \<Rightarrow>
             let s5 = s4\<lparr>g_motion := (random 0 100 (motion_raw io) < 5)\<rparr>
             in if anyDataRead
                then Inr (True,
                  print ''summary - temperature: %.1f C, humidity: %.1f%%, CO2: %d ppm, VOC: %d ppb, light: %d lux, motion: %s''
                    [AFloat (g_temperature s5), AFloat (g_humidity s5), AInt (g_co2 s5),
                     AInt (g_voc s5), AInt (g_light_level s5), ABool (g_motion s5)]
                    (print ''sensor data update complete'' []
                      (s5\<lparr>g_sensor_data_valid := True,
                          g_last_sensor_update := poll_millis io\<rparr>)))
                else Inr (False, print ''no sensor data was read'' [] s5))"

text \<open>\<open>isSensorDataValid()\<close>; \<open>now\<close> is the value \<open>millis()\<close> returns.\<close>

definition isSensorDataValid :: "state \<Rightarrow> 32 word \<Rightarrow> bool" where
  "isSensorDataValid s now = (g_sensor_data_valid s \<and> now - g_last_sensor_update s < 60000)"

text \<open>
  \<open>millis()\<close> of the Arduino core, \<open>t\<close> milliseconds after the start of the program: the
  count of milliseconds as an \<open>unsigned long\<close>, which starts again from 0 after
  \<open>2\<^sup>3\<^sup>2\<close> milliseconds.
\<close>

definition millis :: "nat \<Rightarrow> 32 word" where
  "millis t = of_nat t"

section \<open>Message composer (network.h)\<close>

text \<open>
  What one call of \<open>sendSensorData\<close> takes from outside: \<open>WiFi.macAddress()\<close>, the result of
  \<open>webSocket.sendTXT\<close>, the values of \<open>millis()\<close> at its three readings (inside the first
  \<open>isSensorDataValid()\<close>, for the timestamp, inside the last \<open>isSensorDataValid()\<close>), and
  the raw outputs of the random generator for the six calls of \<open>random\<close>.
\<close>

record send_io =
  mac_address :: string
  sendTXT_result :: bool
  gate_millis :: "32 word"
  stamp_millis :: "32 word"
  confirm_millis :: "32 word"
  raw_temperature :: nat
  raw_humidity :: nat
  raw_co2 :: nat
  raw_voc :: nat
  raw_light :: nat
  raw_motion :: nat

text \<open>The document \<open>sendSensorData\<close> builds from its local variables.\<close>

definition sensor_doc ::
  "real \<Rightarrow> real \<Rightarrow> int \<Rightarrow> int \<Rightarrow> int \<Rightarrow> bool \<Rightarrow> string \<Rightarrow> bool \<Rightarrow> 32 word \<Rightarrow> json" where
  "sensor_doc temperature humidity co2 voc light_level motion mac valid now =
     JObj [(''type'', JStr ''control''),
           (''commands'', JArr [JObj
              [(''device'', JStr ''sensors''),
               (''action'', JStr ''data_update''),
               (''location'', JStr TARGET_ROOM),
               (''parameters'', JObj
                  [(''temperature'', JNum temperature),
                   (''humidity'', JNum humidity),
                   (''co2'', JInt co2),
                   (''voc'', JInt voc),
                   (''light_level'', JInt light_level),
                   (''motion'', JBool motion),
                   (''device_id'', JStr mac),
                   (''source'', JStr (if valid then ''esp8266_real_sensors'' else ''esp8266_simulated'')),
                   (''data_type'', JStr (if valid then ''real'' else ''simulated'')),
                   (''timestamp'', JInt (uint now))])]])]"

definition sendSensorData :: "send_io \<Rightarrow> state \<Rightarrow> state" where
  "sendSensorData io s =
     (if \<not> wsConnected s then print ''Cannot send sensor data - not connected'' [] s
      else
        let use_real = (g_sensor_data_valid s \<and> isSensorDataValid s (gate_millis io));
            temperature = (if use_real then g_temperature s
              else f32 (f64 (23.5 + f64 (of_int (random (- 50) 50 (raw_temperature io)) / 100))));
            humidity = (if use_real then g_humidity s
              else f32 (f64 (55 + f64 (of_int (random (- 200) 200 (raw_humidity io)) / 100))));
            co2 = (if use_real then g_co2 s else 420 + random (- 50) 80 (raw_co2 io));
            voc = (if use_real then g_voc s else 15 + random (- 10) 25 (raw_voc io));
            light_level = (if use_real then g_light_level s
              else 300 + random (- 100) 300 (raw_light io));
            motion = (if use_real then g_motion s else random 0 100 (raw_motion io) < 10);
            s1 = print (if use_real then ''   real CO2: %d ppm, VOC: %d ppb, light: %d lux''
                        else ''   simulated CO2: %d ppm, VOC: %d ppb, light: %d lux'')
                   [AInt co2, AInt voc, AInt light_level]
                  (print (if use_real then ''   real temperature: %.1f C, humidity: %.1f%%''
                          else ''   simulated temperature: %.1f C, humidity: %.1f%%'')
                     [AFloat temperature, AFloat humidity]
                    (print (if use_real then ''Using REAL sensor data for room: %s''
                            else ''Using SIMULATED data for room: %s (real sensor data not available)'')
                       [AStr TARGET_ROOM] s));
            doc = sensor_doc temperature humidity co2 voc light_level motion
                    (mac_address io) (g_sensor_data_valid s) (stamp_millis io);
            s2 = print ''sending message: %s'' [AJson doc]
                  (print ''data type: %s''
                     [AStr (if g_sensor_data_valid s then ''real sensor data'' else ''simulated data'')]
                    (print ''preparing to upload sensor data to room: %s'' [AStr TARGET_ROOM] s1));
            s3 = print ''upload result: %s'' [ABool (sendTXT_result io)]
                  (s2\<lparr>ws_tx := ws_tx s2 @ [doc]\<rparr>)
        in if g_sensor_data_valid s \<and> isSensorDataValid s (confirm_millis io)
           then print ''real sensor data uploaded to the server'' [] s3
           else s3)"

section \<open>Message dispatcher (network.h)\<close>

text \<open>
  What ArduinoJson gives \<open>handleMessage\<close> for its argument: a deserialisation error, or
  the document as the accessors of the source read it (\<open>as<String>()\<close> of a field, the
  keys of \<open>devices\<close> when it is an object, the elements of \<open>results\<close> when it is an array,
  the fields of \<open>sensors\<close> when it is an object).
\<close>

record control_result =
  result_status :: string
  result_device :: string
  result_action :: string
  result_data_type :: string
  result_message :: string

record sensors_view =
  view_real_data :: bool
  view_source :: string
  view_temperature :: real
  view_humidity :: real
  view_co2 :: int
  view_voc :: int
  view_light_level :: int
  view_motion :: bool

record envelope =
  env_type :: string
  env_location :: string
  env_devices :: "string list option"
  env_results :: "control_result list option"
  env_sensors :: "sensors_view option"
  env_device :: string
  env_message :: string

datatype inbound = Malformed string | Decoded envelope

definition log_result :: "state \<Rightarrow> control_result \<Rightarrow> state" where
  "log_result s r =
     (let s1 = print ''   %s %s: %s''
                 [AStr (result_device r), AStr (result_action r), AStr (result_status r)] s
      in if result_status r = ''success''
         then (if result_data_type r = ''real''
               then print ''   real sensor data uploaded to room %s'' [AStr TARGET_ROOM] s1
               else print ''   simulated sensor data uploaded to room %s'' [AStr TARGET_ROOM] s1)
         else print ''   Failed: %s'' [AStr (result_message r)] s1)"

definition handleMessage :: "inbound \<Rightarrow> state \<Rightarrow> state" where
  "handleMessage message s =
     (case message of
        Malformed error \<Rightarrow> print ''JSON parse error: %s'' [AStr error] s
      | Decoded doc \<Rightarrow>
          if env_location doc \<noteq> [] \<and> env_location doc \<noteq> TARGET_ROOM
          then print ''Ignoring message from room: %s (not our target room: %s)''
                 [AStr (env_location doc), AStr TARGET_ROOM] s
          else
            let s1 = print ''Processing message type: %s for room: %s''
                       [AStr (env_type doc), AStr TARGET_ROOM] s
            in if env_type doc = ''init'' then
                 (let s2 = print ''IoT Service initialization received for room: %s''
                             [AStr TARGET_ROOM] s1
                  in case env_devices doc of
                       None \<Rightarrow> s2
                     | Some keys \<Rightarrow>
                         foldl (\<lambda>t key. print ''   - %s'' [AStr key] t)
                           (print ''Available devices in %s:'' [AStr TARGET_ROOM] s2) keys)
               else if env_type doc = ''control_results'' then
                 (let s2 = print ''Control command results received for room: %s''
                             [AStr TARGET_ROOM] s1
                  in case env_results doc of
                       None \<Rightarrow> s2
                     | Some results \<Rightarrow> foldl log_result s2 results)
               else if env_type doc = ''sensor_update'' then
                 (let s2 = print ''Sensor update from our room: %s'' [AStr TARGET_ROOM] s1
                  in case env_sensors doc of
                       None \<Rightarrow> s2
                     | Some sensors \<Rightarrow>
                         print ''   Data source: %s (%s)''
                           [AStr (view_source sensors),
                            AStr (if view_real_data sensors then ''Real'' else ''Simulated'')]
                          (print ''   Light: %d lux, Motion: %s''
                             [AInt (view_light_level sensors),
                              AStr (if view_motion sensors then ''Detected'' else ''None'')]
                            (print ''   CO2: %d ppm, VOC: %d ppb''
                               [AInt (view_co2 sensors), AInt (view_voc sensors)]
                              (print ''   Current data - Temp: %.1f C, Humidity: %.1f%%''
                                 [AFloat (view_temperature sensors),
                                  AFloat (view_humidity sensors)] s2))))
               else if env_type doc = ''device_update'' then
                 print ''Device update in our room %s: %s''
                   [AStr TARGET_ROOM, AStr (env_device doc)] s1
               else if env_type doc = ''error'' then
                 print ''Error from server for room %s: %s''
                   [AStr TARGET_ROOM, AStr (env_message doc)] s1
               else
                 print ''Other message type for room %s: %s''
                   [AStr TARGET_ROOM, AStr (env_type doc)] s1)"

section \<open>Ping and transport events (network.h)\<close>

record ping_io =
  ping_mac_address :: string
  ping_millis :: "32 word"

definition ping_doc :: "string \<Rightarrow> 32 word \<Rightarrow> bool \<Rightarrow> json" where
  "ping_doc mac now valid =
     JObj [(''type'', JStr ''ping''),
           (''device_id'', JStr mac),
           (''location'', JStr TARGET_ROOM),
           (''timestamp'', JInt (uint now)),
           (''sensor_status'', JStr (if valid then ''active'' else ''inactive''))]"

definition sendPing :: "ping_io \<Rightarrow> state \<Rightarrow> state" where
  "sendPing io s =
     (if \<not> wsConnected s then s
      else print ''Ping sent for room: %s (sensors: %s)''
             [AStr TARGET_ROOM, AStr (if g_sensor_data_valid s then ''active'' else ''inactive'')]
             (s\<lparr>ws_tx := ws_tx s @
                  [ping_doc (ping_mac_address io) (ping_millis io) (g_sensor_data_valid s)]\<rparr>))"

text \<open>The event types of the WebSockets library.\<close>

datatype WStype =
    WStype_ERROR
  | WStype_DISCONNECTED
  | WStype_CONNECTED
  | WStype_TEXT
  | WStype_BIN
  | WStype_FRAGMENT_TEXT_START
  | WStype_FRAGMENT_BIN_START
  | WStype_FRAGMENT
  | WStype_FRAGMENT_FIN
  | WStype_PING
  | WStype_PONG

definition WStype_code :: "WStype \<Rightarrow> int" where
  "WStype_code t = (case t of
       WStype_ERROR \<Rightarrow> 0 | WStype_DISCONNECTED \<Rightarrow> 1 | WStype_CONNECTED \<Rightarrow> 2
     | WStype_TEXT \<Rightarrow> 3 | WStype_BIN \<Rightarrow> 4 | WStype_FRAGMENT_TEXT_START \<Rightarrow> 5
     | WStype_FRAGMENT_BIN_START \<Rightarrow> 6 | WStype_FRAGMENT \<Rightarrow> 7 | WStype_FRAGMENT_FIN \<Rightarrow> 8
     | WStype_PING \<Rightarrow> 9 | WStype_PONG \<Rightarrow> 10)"

text \<open>
  What one call of \<open>webSocketEvent\<close> takes from outside: the value of \<open>millis()\<close>, the
  payload as text, and what ArduinoJson decodes the payload to.
\<close>

record event_io =
  event_millis :: "32 word"
  payload :: string
  decoded :: inbound

definition webSocketEvent :: "WStype \<Rightarrow> event_io \<Rightarrow> state \<Rightarrow> state" where
  "webSocketEvent type io s =
     (let elapsed = AInt (uint (event_millis io div 1000)) in
      case type of
        WStype_DISCONNECTED \<Rightarrow>
          print ''[%lus] Disconnected from IoT Service'' [elapsed] (s\<lparr>wsConnected := False\<rparr>)
      | WStype_CONNECTED \<Rightarrow>
          print ''[%lus] Sensor status: %s''
            [elapsed, AStr (if g_sensor_data_valid s then ''real sensors available''
                            else ''simulated data only'')]
            (print ''[%lus] Connected to IoT Service: %s'' [elapsed, AStr (payload io)]
              (s\<lparr>wsConnected := True\<rparr>))
      | WStype_TEXT \<Rightarrow>
          handleMessage (decoded io)
            (print ''[%lus] Received (%d bytes): %s''
               [elapsed, AInt (int (length (payload io))), AStr (payload io)] s)
      | WStype_ERROR \<Rightarrow> print ''[%lus] Error: %s'' [elapsed, AStr (payload io)] s
      | WStype_PING \<Rightarrow> print ''[%lus] Ping'' [elapsed] s
      | WStype_PONG \<Rightarrow> print ''[%lus] Pong'' [elapsed] s
      | _ \<Rightarrow> print ''[%lus] Event type: %d'' [elapsed, AInt (WStype_code type)] s)"

section \<open>The operating loop\<close>

text \<open>
  The operations of the operating loop, each with what it takes from outside, and their
  effect on the state. A run is a sequence of operations.
\<close>

datatype op =
    ReadAllSensors poll_io
  | SendSensorData send_io
  | SendPing ping_io
  | HandleMessage inbound
  | WebSocketEvent WStype event_io

fun exec :: "op \<Rightarrow> state \<Rightarrow> fault + state" where
  "exec (ReadAllSensors io) s =
     (case readAllSensors io s of Inl e \<Rightarrow> Inl e | Inr (anyDataRead, s') \<Rightarrow> Inr s')"
| "exec (SendSensorData io) s = Inr (sendSensorData io s)"
| "exec (SendPing io) s = Inr (sendPing io s)"
| "exec (HandleMessage message) s = Inr (handleMessage message s)"
| "exec (WebSocketEvent type io) s = Inr (webSocketEvent type io s)"

fun run :: "op list \<Rightarrow> state \<Rightarrow> fault + state" where
  "run [] s = Inr s"
| "run (x # xs) s = (case exec x s of Inl e \<Rightarrow> Inl e | Inr s' \<Rightarrow> run xs s')"

text \<open>Reading a field of a JSON object, and the parameters of a sensor report.\<close>

definition field :: "string \<Rightarrow> json \<Rightarrow> json option" where
  "field key doc = (case doc of JObj kvs \<Rightarrow> map_of kvs key | _ \<Rightarrow> None)"

definition parameter :: "string \<Rightarrow> json \<Rightarrow> json option" where
  "parameter key doc =
     (case field ''commands'' doc of
        Some (JArr (cmd # _)) \<Rightarrow>
          (case field ''parameters'' cmd of Some ps \<Rightarrow> field key ps | None \<Rightarrow> None)
      | _ \<Rightarrow> None)"

section \<open>Concrete inputs\<close>

text \<open>
  An AHT21 answer that decodes to 50 % and 25 C (not busy, humidity fraction \<open>0x80000\<close>,
  temperature fraction \<open>0x60000\<close>), and one that decodes to 150 C (temperature fraction
  \<open>0xFFFFF\<close>).
\<close>

definition aht21_50_25 :: aht21_io where
  "aht21_50_25 = \<lparr>aht_error = 0, aht_answer = [0x1C, 0x80, 0x00, 0x06, 0x00, 0x00]\<rparr>"

definition aht21_hot :: aht21_io where
  "aht21_hot = \<lparr>aht_error = 0, aht_answer = [0x1C, 0x80, 0x00, 0x0F, 0xFF, 0xFF]\<rparr>"

text \<open>
  An ENS160 with data ready that answers AQI 1, TVOC 20 ppb and eCO2 450 ppm; and one
  whose status register reports data ready while the selects of the TVOC and eCO2
  registers are not acknowledged (status 2) and their reads return no byte.
\<close>

definition ens160_450_20 :: ens160_io where
  "ens160_450_20 = \<lparr>status_error = 0, status_answer = [0x02], aqi_error = 0, aqi_answer = [1],
     tvoc_error = 0, tvoc_answer = [20, 0], eco2_error = 0, eco2_answer = [0xC2, 0x01]\<rparr>"

definition ens160_short :: ens160_io where
  "ens160_short = \<lparr>status_error = 0, status_answer = [0x02], aqi_error = 0, aqi_answer = [1],
     tvoc_error = 2, tvoc_answer = [], eco2_error = 2, eco2_answer = []\<rparr>"

text \<open>
  A poll cycle 5 seconds after the start in which every enabled driver succeeds, and one
  in which none does (no acknowledgement on the bus, ADC at its maximum).
\<close>

definition poll_good :: poll_io where
  "poll_good = \<lparr>aht21 = aht21_50_25, ens160 = ens160_450_20,
     veml7700 = \<lparr>veml_error = 2, veml_answer = []\<rparr>, adc = 10, motion_raw = 3,
     poll_millis = 5000\<rparr>"

definition poll_dead :: poll_io where
  "poll_dead = \<lparr>aht21 = \<lparr>aht_error = 2, aht_answer = []\<rparr>,
     ens160 = \<lparr>status_error = 2, status_answer = [], aqi_error = 2, aqi_answer = [],
       tvoc_error = 2, tvoc_answer = [], eco2_error = 2, eco2_answer = []\<rparr>,
     veml7700 = \<lparr>veml_error = 2, veml_answer = []\<rparr>, adc = 1023, motion_raw = 50,
     poll_millis = 9000\<rparr>"

text \<open>
  A send tick 66 seconds after the start whose six random draws are all 0, and a ping at
  the same time.
\<close>

definition send_66s :: send_io where
  "send_66s = \<lparr>mac_address = ''5C:CF:7F:00:00:01'', sendTXT_result = True,
     gate_millis = 66000, stamp_millis = 66000, confirm_millis = 66000,
     raw_temperature = 0, raw_humidity = 0, raw_co2 = 0, raw_voc = 0, raw_light = 0,
     raw_motion = 0\<rparr>"

definition ping_66s :: ping_io where
  "ping_66s = \<lparr>ping_mac_address = ''5C:CF:7F:00:00:01'', ping_millis = 66000\<rparr>"

text \<open>
  The state of a connected device whose last successful poll, at 5 seconds, read
  450 ppm and 20 ppb.
\<close>

definition polled_at_5s :: state where
  "polled_at_5s = boot\<lparr>g_temperature := 25, g_humidity := 50, g_co2 := 450, g_voc := 20,
     g_light_level := 2000, g_sensor_data_valid := True, g_last_sensor_update := 5000,
     wsConnected := True\<rparr>"

text \<open>An inbound sensor update for another room.\<close>

definition kitchen_update :: inbound where
  "kitchen_update = Decoded \<lparr>env_type = ''sensor_update'', env_location = ''kitchen'',
     env_devices = None, env_results = None,
     env_sensors = Some \<lparr>view_real_data = True, view_source = ''esp8266_real_sensors'',
       view_temperature = 30, view_humidity = 40, view_co2 = 900, view_voc = 100,
       view_light_level = 50, view_motion = True\<rparr>,
     env_device = ''null'', env_message = ''null''\<rparr>"

section \<open>Rounding: bounds that survive it\<close>

text \<open>
  Rounding to \<open>p\<close> significant bits never crosses a number that has \<open>p\<close> significant bits
  itself: such a number below \<open>x\<close> stays below the rounded \<open>x\<close>, and likewise above.
\<close>

lemma rne_le: "y \<le> of_int n \<Longrightarrow> rne y \<le> n"
  unfolding rne_def Let_def by (auto; linarith)

lemma rne_ge: "of_int n \<le> y \<Longrightarrow> n \<le> rne y"
  unfolding rne_def Let_def by (auto; linarith)

lemma rne_minus: "rne (- y) = - rne y"
proof (cases "y \<in> \<int>")
  case True
  then obtain n where "y = of_int n" by (auto elim: Ints_cases)
  then show ?thesis by (simp add: rne_def flip: of_int_minus)
next
  case False
  then have "y \<noteq> of_int \<lfloor>y\<rfloor>" by (metis Ints_of_int)
  then have c: "\<lceil>y\<rceil> = \<lfloor>y\<rfloor> + 1" by (simp add: ceiling_altdef)
  have f: "\<lfloor>- y\<rfloor> = - \<lfloor>y\<rfloor> - 1" using c by (simp add: floor_minus)
  show ?thesis unfolding rne_def Let_def f by (auto simp: algebra_simps)
qed

lemma expo_bounds:
  assumes "0 < x"
  shows "2 powi expo x \<le> x" and "x < 2 powi (expo x + 1)"
proof -
  have "2 powi expo x \<le> x \<and> x < 2 powi (expo x + 1)"
  proof (cases "1 \<le> x")
    case True
    then have n: "0 < \<lfloor>x\<rfloor>" by linarith
    define b where "b = nat (bitlen \<lfloor>x\<rfloor>)"
    have b: "bitlen \<lfloor>x\<rfloor> = int b" "0 < b"
      using n by (simp_all add: b_def bitlen_alt_def)
    from bitlen_bounds [OF n] have "2 ^ (b - 1) \<le> \<lfloor>x\<rfloor>" "\<lfloor>x\<rfloor> < 2 ^ b"
      unfolding b(1) by (simp_all add: nat_diff_distrib')
    then have "2 ^ (b - 1) \<le> \<lfloor>x\<rfloor>" "\<lfloor>x\<rfloor> + 1 \<le> 2 ^ b" by simp_all
    then have "(of_int (2 ^ (b - 1)) :: real) \<le> of_int \<lfloor>x\<rfloor>"
      "(of_int (\<lfloor>x\<rfloor> + 1) :: real) \<le> of_int (2 ^ b)"
      by (simp_all only: of_int_le_iff)
    then have "(2::real) ^ (b - 1) \<le> of_int \<lfloor>x\<rfloor>" "of_int \<lfloor>x\<rfloor> + 1 \<le> (2::real) ^ b"
      by simp_all
    moreover have "expo x = int (b - 1)" "expo x + 1 = int b"
      using True b by (simp_all add: expo_def of_nat_diff)
    ultimately show ?thesis
      by (simp only: power_int_of_nat) linarith
  next
    case False
    define y where "y = 1 / x"
    have y: "1 < y" using False assms by (simp add: y_def)
    then have m: "0 < \<lceil>y\<rceil> - 1" by linarith
    define b where "b = nat (bitlen (\<lceil>y\<rceil> - 1))"
    have b: "bitlen (\<lceil>y\<rceil> - 1) = int b" "0 < b"
      using m by (simp_all add: b_def bitlen_alt_def)
    from bitlen_bounds [OF m] have "2 ^ (b - 1) \<le> \<lceil>y\<rceil> - 1" "\<lceil>y\<rceil> - 1 < 2 ^ b"
      unfolding b(1) by (simp_all add: nat_diff_distrib')
    then have "2 ^ (b - 1) \<le> \<lceil>y\<rceil> - 1" "\<lceil>y\<rceil> \<le> 2 ^ b" by simp_all
    then have "(of_int (2 ^ (b - 1)) :: real) \<le> of_int (\<lceil>y\<rceil> - 1)"
      "(of_int \<lceil>y\<rceil> :: real) \<le> of_int (2 ^ b)"
      by (simp_all only: of_int_le_iff)
    then have "(2::real) ^ (b - 1) \<le> of_int (\<lceil>y\<rceil> - 1)" "of_int (\<lceil>y\<rceil> - 1) + 1 \<le> (2::real) ^ b"
      by simp_all
    then have lo: "(2::real) ^ (b - 1) < y" and hi: "y \<le> 2 ^ b"
      by linarith+
    have e: "expo x = - int b" using False b by (simp add: expo_def y_def)
    have A: "2 powi (- int b) \<le> x"
      using hi y assms by (simp add: power_int_minus y_def field_simps)
    have B: "x < 2 powi (- int (b - 1))"
      using lo y assms by (simp add: power_int_minus y_def field_simps)
    have eq: "- int b + 1 = - int (b - 1)" using b by simp
    show ?thesis unfolding e eq using A B by blast
  qed
  then show "2 powi expo x \<le> x" and "x < 2 powi (expo x + 1)" by simp_all
qed

lemma rnd_minus: "rnd p (- x) = - rnd p x"
  by (simp add: rnd_def Let_def rne_minus)

lemma rnd_pos_lower:
  assumes x: "0 < x" and p: "0 < p" and m: "m < 2 ^ p" and a: "of_int m * 2 powi k \<le> x"
  shows "of_int m * 2 powi k \<le> rnd p x"
proof -
  define e where "e = expo x"
  define q :: real where "q = 2 powi (e - int p + 1)"
  have q: "0 < q" by (simp add: q_def)
  have r: "rnd p x = of_int (rne (x / q)) * q"
    using x by (simp add: rnd_def q_def e_def Let_def)
  have ex: "2 powi e \<le> x" using expo_bounds [OF x] by (simp add: e_def)
  show ?thesis
  proof (cases "e - int p + 1 \<le> k")
    case True
    define j where "j = nat (k - (e - int p + 1))"
    have "2 powi k = 2 powi (int j) * q"
      using True by (simp add: j_def q_def flip: power_int_add)
    then have aq: "of_int m * 2 powi k = of_int (m * 2 ^ j) * q" by simp
    have "of_int (m * 2 ^ j) * q \<le> x" using a unfolding aq .
    then have "of_int (m * 2 ^ j) \<le> x / q" using q by (simp only: pos_le_divide_eq)
    then have "m * 2 ^ j \<le> rne (x / q)" by (rule rne_ge)
    then have "of_int (m * 2 ^ j) * q \<le> of_int (rne (x / q)) * q"
      using q by (simp del: of_int_mult of_int_power)
    then show ?thesis unfolding aq r .
  next
    case False
    then have k: "k + int p \<le> e" by simp
    have "of_int m * 2 powi k \<le> (2::real) ^ p * 2 powi k"
    proof -
      have "m \<le> 2 ^ p" using m by simp
      then have "(of_int m :: real) \<le> of_int (2 ^ p)" by (simp only: of_int_le_iff)
      then show ?thesis by (intro mult_right_mono) simp_all
    qed
    also have "\<dots> = 2 powi (k + int p)" by (simp add: power_int_add)
    also have "\<dots> \<le> 2 powi e" using k by (intro power_int_increasing) simp_all
    finally have a_le: "of_int m * 2 powi k \<le> (2::real) powi e" .
    have "2 powi e = 2 ^ (p - 1) * q"
      using p by (simp add: q_def of_nat_diff flip: power_int_of_nat power_int_add)
    then have eq: "2 powi e = of_int (2 ^ (p - 1)) * q" by simp
    then have "of_int (2 ^ (p - 1)) \<le> x / q" using ex q by (simp add: field_simps)
    then have "2 ^ (p - 1) \<le> rne (x / q)" by (rule rne_ge)
    then have "of_int (2 ^ (p - 1)) * q \<le> of_int (rne (x / q)) * q"
      using q by (simp del: of_int_power)
    then show ?thesis using a_le eq r by simp
  qed
qed

lemma rnd_pos_upper:
  assumes x: "0 < x" and p: "0 < p" and m: "m < 2 ^ p" and b: "x \<le> of_int m * 2 powi k"
  shows "rnd p x \<le> of_int m * 2 powi k"
proof -
  define e where "e = expo x"
  define q :: real where "q = 2 powi (e - int p + 1)"
  have q: "0 < q" by (simp add: q_def)
  have r: "rnd p x = of_int (rne (x / q)) * q"
    using x by (simp add: rnd_def q_def e_def Let_def)
  have ex: "2 powi e \<le> x" using expo_bounds [OF x] by (simp add: e_def)
  show ?thesis
  proof (cases "e - int p + 1 \<le> k")
    case True
    define j where "j = nat (k - (e - int p + 1))"
    have "2 powi k = 2 powi (int j) * q"
      using True by (simp add: j_def q_def flip: power_int_add)
    then have bq: "of_int m * 2 powi k = of_int (m * 2 ^ j) * q" by simp
    have "x \<le> of_int (m * 2 ^ j) * q" using b unfolding bq .
    then have "x / q \<le> of_int (m * 2 ^ j)" using q by (simp only: pos_divide_le_eq)
    then have "rne (x / q) \<le> m * 2 ^ j" by (rule rne_le)
    then have "of_int (rne (x / q)) * q \<le> of_int (m * 2 ^ j) * q"
      using q by (simp del: of_int_mult of_int_power)
    then show ?thesis unfolding bq r .
  next
    case False
    then have k: "k + int p \<le> e" by simp
    have "of_int m * 2 powi k < (2::real) ^ p * 2 powi k"
    proof -
      have "(of_int m :: real) < of_int (2 ^ p)" using m by (simp only: of_int_less_iff)
      then show ?thesis by (intro mult_strict_right_mono) simp_all
    qed
    also have "\<dots> = 2 powi (k + int p)" by (simp add: power_int_add)
    also have "\<dots> \<le> 2 powi e" using k by (intro power_int_increasing) simp_all
    finally have "of_int m * 2 powi k < (2::real) powi e" .
    then have "of_int m * 2 powi k < x" using ex by simp
    then show ?thesis using b by simp
  qed
qed

lemma rnd_nonneg: "0 \<le> x \<Longrightarrow> 0 < p \<Longrightarrow> 0 \<le> rnd p x"
  using rnd_pos_lower [of x p 0 0] by (cases "x = 0") (simp_all add: rnd_def)

lemma rnd_lower:
  assumes p: "0 < p" and m: "\<bar>m\<bar> < 2 ^ p" and a: "of_int m * 2 powi k \<le> x"
  shows "of_int m * 2 powi k \<le> rnd p x"
proof -
  consider "0 < x" "0 < m" | "0 < x" "m \<le> 0" | "x = 0" | "x < 0" by linarith
  then show ?thesis
  proof cases
    case 1
    then show ?thesis using rnd_pos_lower [OF _ p _ a] m by simp
  next
    case 2
    have "of_int m * 2 powi k \<le> (0::real)"
      using 2 by (simp add: mult_nonpos_nonneg)
    then show ?thesis using rnd_nonneg [of x p] 2 p by simp
  next
    case 3
    then show ?thesis using a by (simp add: rnd_def)
  next
    case 4
    have "- x \<le> of_int (- m) * 2 powi k" using a by simp
    moreover have "- m < 2 ^ p" using m by simp
    ultimately have "rnd p (- x) \<le> of_int (- m) * 2 powi k"
      using 4 p by (intro rnd_pos_upper) simp_all
    then show ?thesis by (simp add: rnd_minus)
  qed
qed

lemma rnd_upper:
  assumes p: "0 < p" and m: "\<bar>m\<bar> < 2 ^ p" and b: "x \<le> of_int m * 2 powi k"
  shows "rnd p x \<le> of_int m * 2 powi k"
proof -
  have "of_int (- m) * 2 powi k \<le> - x" using b by simp
  moreover have "\<bar>- m\<bar> < 2 ^ p" using m by simp
  ultimately have "of_int (- m) * 2 powi k \<le> rnd p (- x)"
    using p by (intro rnd_lower)
  then show ?thesis by (simp add: rnd_minus)
qed

lemma rnd_exact:
  assumes "0 < p" and "\<bar>m\<bar> < 2 ^ p"
  shows "rnd p (of_int m * 2 powi k) = of_int m * 2 powi k"
  using rnd_lower [OF assms, of k "of_int m * 2 powi k"] rnd_upper [OF assms, of "of_int m * 2 powi k" k]
  by simp

lemma f32_lower: "\<bar>m\<bar> < 2 ^ 24 \<Longrightarrow> of_int m * 2 powi k \<le> x \<Longrightarrow> of_int m * 2 powi k \<le> f32 x"
  unfolding f32_def by (rule rnd_lower) simp_all

lemma f32_upper: "\<bar>m\<bar> < 2 ^ 24 \<Longrightarrow> x \<le> of_int m * 2 powi k \<Longrightarrow> f32 x \<le> of_int m * 2 powi k"
  unfolding f32_def by (rule rnd_upper) simp_all

lemma f64_lower: "\<bar>m\<bar> < 2 ^ 53 \<Longrightarrow> of_int m * 2 powi k \<le> x \<Longrightarrow> of_int m * 2 powi k \<le> f64 x"
  unfolding f64_def by (rule rnd_lower) simp_all

lemma f64_upper: "\<bar>m\<bar> < 2 ^ 53 \<Longrightarrow> x \<le> of_int m * 2 powi k \<Longrightarrow> f64 x \<le> of_int m * 2 powi k"
  unfolding f64_def by (rule rnd_upper) simp_all

lemma denominator_ge_2:
  assumes "adcValue < GL5539_ADC_MAX - 1"
  shows "2 \<le> f32 (of_int (GL5539_ADC_MAX - adcValue))"
proof -
  have "(2::real) \<le> of_int (GL5539_ADC_MAX - adcValue)" using assms by simp
  then show ?thesis using f32_lower [of 2 0] by simp
qed

lemma ldrResistance_total:
  assumes "adcValue < GL5539_ADC_MAX - 1"
  shows "\<exists>r. ldrResistance adcValue = Inr r"
  using denominator_ge_2 [OF assms] by (auto simp: ldrResistance_def fdiv_def)

lemma pow_ge_1:
  assumes "1 \<le> r"
  shows "1 \<le> pow r (f64 (7 / 5))"
proof -
  have "0 \<le> f64 (7 / 5)" using f64_lower [of 0 0 "7 / 5"] by simp
  then have "1 \<le> r powr f64 (7 / 5)" using assms by (simp add: ge_one_powr_ge_zero)
  then show ?thesis unfolding pow_def using f64_lower [of 1 0] by simp
qed

lemma lux_of_total: "\<exists>lux. lux_of r = Inr lux"
proof (cases "50000 < r \<or> r < 100")
  case True
  then show ?thesis by (auto simp: lux_of_def)
next
  case False
  then have "1 \<le> pow r (f64 (7 / 5))" by (intro pow_ge_1) simp
  then show ?thesis using False by (auto simp: lux_of_def ddiv_def)
qed

lemma lux_of_bands:
  "lux_of r = Inr (if 50000 < r then 1 else if r < 100 then 2000
                   else f32 (f64 (12500000 / pow r (f64 (7 / 5)))))"
proof (cases "50000 < r \<or> r < 100")
  case True
  then show ?thesis by (auto simp: lux_of_def)
next
  case False
  then have "1 \<le> pow r (f64 (7 / 5))" by (intro pow_ge_1) simp
  then show ?thesis using False by (auto simp: lux_of_def ddiv_def)
qed

lemma readGL5539_cases:
  obtains "GL5539_ADC_MAX - 1 \<le> adcValue"
      "readGL5539 adcValue s = Inr (False, print ''GL5539 read failed: too dark or sensor fault'' [] s)"
  | r lux where "adcValue < GL5539_ADC_MAX - 1" "ldrResistance adcValue = Inr r" "lux_of r = Inr lux"
      "0 \<le> lux" "lux \<le> 10000" "10 \<le> adcValue"
      "readGL5539 adcValue s = Inr (True,
         print ''GL5539 - ADC: %d, resistance: %.0f Ohm, light: %.1f lux''
           [AInt adcValue, AFloat r, AFloat lux] (s\<lparr>g_light_level := to_int lux\<rparr>))"
  | r lux where "adcValue < GL5539_ADC_MAX - 1" "ldrResistance adcValue = Inr r" "lux_of r = Inr lux"
      "\<not> (0 \<le> lux \<and> lux \<le> 10000 \<and> 10 \<le> adcValue)"
      "readGL5539 adcValue s = Inr (False,
         print ''GL5539 data abnormal - ADC: %d, resistance: %.0f Ohm, Lux: %.1f''
           [AInt adcValue, AFloat r, AFloat lux] s)"
proof (cases "GL5539_ADC_MAX - 1 \<le> adcValue")
  case True
  then show ?thesis using that(1) by (simp add: readGL5539_def)
next
  case False
  then have lt: "adcValue < GL5539_ADC_MAX - 1" by simp
  obtain r where r: "ldrResistance adcValue = Inr r" using ldrResistance_total [OF lt] by blast
  obtain lux where l: "lux_of r = Inr lux" using lux_of_total by blast
  show ?thesis
  proof (cases "0 \<le> lux \<and> lux \<le> 10000 \<and> 10 \<le> adcValue")
    case True
    then show ?thesis using that(2) [OF lt r l] False r l by (simp add: readGL5539_def)
  next
    case F: False
    then show ?thesis using that(3) [OF lt r l] False r l by (simp add: readGL5539_def)
  qed
qed

section \<open>What the drivers do and leave alone\<close>

lemma readAllSensors_unfold:
  assumes 1: "readAHT21 (aht21 io) (print ''reading all sensor data...'' [] s) = (ok1, s1)"
    and 2: "readENS160 (ens160 io) s1 = (ok2, s2)"
    and 3: "readGL5539 (adc io) s2 = Inr (ok3, s3)"
  shows "readAllSensors io s =
    (if ok1 \<or> ok2 \<or> ok3
     then Inr (True,
       print ''summary - temperature: %.1f C, humidity: %.1f%%, CO2: %d ppm, VOC: %d ppb, light: %d lux, motion: %s''
         [AFloat (g_temperature s3), AFloat (g_humidity s3), AInt (g_co2 s3),
          AInt (g_voc s3), AInt (g_light_level s3), ABool (random 0 100 (motion_raw io) < 5)]
         (print ''sensor data update complete'' []
           (s3\<lparr>g_motion := (random 0 100 (motion_raw io) < 5), g_sensor_data_valid := True,
               g_last_sensor_update := poll_millis io\<rparr>)))
     else Inr (False, print ''no sensor data was read'' []
                 (s3\<lparr>g_motion := (random 0 100 (motion_raw io) < 5)\<rparr>)))"
  unfolding readAllSensors_def when_enabled_def ENABLE_AHT21_def ENABLE_ENS160_def
    ENABLE_VEML7700_def ENABLE_GL5539_def
  by (simp add: 1 2 3 Let_def)

lemma readGL5539_total: "\<exists>ok s'. readGL5539 adcValue s = Inr (ok, s')"
  by (cases adcValue s rule: readGL5539_cases) auto

lemma readAHT21_frame:
  "g_sensor_data_valid (snd (readAHT21 io s)) = g_sensor_data_valid s"
  "g_last_sensor_update (snd (readAHT21 io s)) = g_last_sensor_update s"
  "wsConnected (snd (readAHT21 io s)) = wsConnected s"
  "ws_tx (snd (readAHT21 io s)) = ws_tx s"
  by (simp_all add: readAHT21_def print_def Let_def split: list.split)

lemma readENS160_frame:
  "g_sensor_data_valid (snd (readENS160 io s)) = g_sensor_data_valid s"
  "g_last_sensor_update (snd (readENS160 io s)) = g_last_sensor_update s"
  "wsConnected (snd (readENS160 io s)) = wsConnected s"
  "ws_tx (snd (readENS160 io s)) = ws_tx s"
  by (simp_all add: readENS160_def print_def Let_def split: list.split)

lemma readGL5539_frame:
  assumes "readGL5539 adcValue s = Inr (ok, s')"
  shows "g_sensor_data_valid s' = g_sensor_data_valid s \<and>
    g_last_sensor_update s' = g_last_sensor_update s \<and>
    wsConnected s' = wsConnected s \<and> ws_tx s' = ws_tx s"
proof (cases adcValue s rule: readGL5539_cases)
  case 1
  then show ?thesis using assms by (simp add: print_def)
next
  case (2 r lux)
  then show ?thesis using assms by (simp add: print_def)
next
  case (3 r lux)
  then show ?thesis using assms by (simp add: print_def)
qed

text \<open>The three enabled drivers of one cycle, in the order of the source.\<close>

lemma drivers_run:
  obtains ok1 s1 ok2 s2 ok3 s3 where
    "readAHT21 (aht21 io) (print ''reading all sensor data...'' [] s) = (ok1, s1)"
    "readENS160 (ens160 io) s1 = (ok2, s2)"
    "readGL5539 (adc io) s2 = Inr (ok3, s3)"
    "g_sensor_data_valid s3 = g_sensor_data_valid s"
    "g_last_sensor_update s3 = g_last_sensor_update s"
    "wsConnected s3 = wsConnected s"
    "ws_tx s3 = ws_tx s"
proof -
  obtain ok1 s1 where 1: "readAHT21 (aht21 io) (print ''reading all sensor data...'' [] s) = (ok1, s1)"
    by (cases "readAHT21 (aht21 io) (print ''reading all sensor data...'' [] s)")
  obtain ok2 s2 where 2: "readENS160 (ens160 io) s1 = (ok2, s2)"
    by (cases "readENS160 (ens160 io) s1")
  obtain ok3 s3 where 3: "readGL5539 (adc io) s2 = Inr (ok3, s3)"
    using readGL5539_total by blast
  have f1: "g_sensor_data_valid s1 = g_sensor_data_valid s" "g_last_sensor_update s1 = g_last_sensor_update s"
    "wsConnected s1 = wsConnected s" "ws_tx s1 = ws_tx s"
    using readAHT21_frame [of "aht21 io" "print ''reading all sensor data...'' [] s"]
    unfolding 1 by (simp_all add: print_def)
  have f2: "g_sensor_data_valid s2 = g_sensor_data_valid s1" "g_last_sensor_update s2 = g_last_sensor_update s1"
    "wsConnected s2 = wsConnected s1" "ws_tx s2 = ws_tx s1"
    using readENS160_frame [of "ens160 io" s1] unfolding 2 by simp_all
  note f3 = readGL5539_frame [OF 3]
  show thesis using that [OF 1 2 3] f1 f2 f3 by simp
qed

lemma readAllSensors_effect:
  "\<exists>anyDataRead s'. readAllSensors io s = Inr (anyDataRead, s') \<and>
     g_sensor_data_valid s' = (g_sensor_data_valid s \<or> anyDataRead) \<and>
     g_last_sensor_update s' = (if anyDataRead then poll_millis io else g_last_sensor_update s) \<and>
     wsConnected s' = wsConnected s \<and> ws_tx s' = ws_tx s"
proof -
  obtain ok1 s1 ok2 s2 ok3 s3 where d:
    "readAHT21 (aht21 io) (print ''reading all sensor data...'' [] s) = (ok1, s1)"
    "readENS160 (ens160 io) s1 = (ok2, s2)"
    "readGL5539 (adc io) s2 = Inr (ok3, s3)"
    and f: "g_sensor_data_valid s3 = g_sensor_data_valid s"
    "g_last_sensor_update s3 = g_last_sensor_update s"
    "wsConnected s3 = wsConnected s"
    "ws_tx s3 = ws_tx s"
    by (rule drivers_run)
  show ?thesis
  proof (cases "ok1 \<or> ok2 \<or> ok3")
    case True
    then show ?thesis unfolding readAllSensors_unfold [OF d] using f
      by (intro exI [of _ True]) (simp add: print_def)
  next
    case False
    then show ?thesis unfolding readAllSensors_unfold [OF d] using f
      by (intro exI [of _ False]) (simp add: print_def)
  qed
qed

section \<open>The drivers and the aggregator at the concrete inputs\<close>

lemma aht21_humidity_half: "aht21_humidity 524288 = 50"
proof -
  have "f32 (f64 (f64 (524288 * 100) / 1048576)) = 50" by code_simp
  then show ?thesis by (simp add: aht21_humidity_def)
qed

lemma aht21_temperature_25: "aht21_temperature 393216 = 25"
proof -
  have "f32 (f64 (f64 (f64 (393216 * 200) / 1048576) - 50)) = 25" by code_simp
  then show ?thesis by (simp add: aht21_temperature_def)
qed

lemma aht21_temperature_150: "aht21_temperature 1048575 = 2457597 / 16384"
proof -
  have "f32 (f64 (f64 (f64 (1048575 * 200) / 1048576) - 50)) = 2457597 / 16384" by code_simp
  then show ?thesis by (simp add: aht21_temperature_def)
qed

lemma readAHT21_50_25:
  "readAHT21 aht21_50_25 s =
     (True, print ''AHT21 - temperature: %.1f C, humidity: %.1f %%'' [AFloat 25, AFloat 50]
              (s\<lparr>g_temperature := 25, g_humidity := 50\<rparr>))"
  by (simp add: readAHT21_def aht21_50_25_def requestFrom_def aht21_humidity_raw_def
        aht21_temperature_raw_def aht21_humidity_half aht21_temperature_25)

lemma readAHT21_hot:
  "readAHT21 aht21_hot s = (False, print ''AHT21 data out of normal range'' [] s)"
  by (simp add: readAHT21_def aht21_hot_def requestFrom_def aht21_humidity_raw_def
        aht21_temperature_raw_def aht21_humidity_half aht21_temperature_150)

lemma readENS160_450_20:
  "readENS160 ens160_450_20 s =
     (True, print ''ENS160 - AQI: %d, TVOC: %d ppb, CO2: %d ppm'' [AInt 1, AInt 20, AInt 450]
              (s\<lparr>g_co2 := 450, g_voc := 20\<rparr>))"
  by (simp add: readENS160_def ens160_450_20_def requestFrom_def read_u16_def)

lemma readENS160_short:
  "readENS160 ens160_short s =
     (True, print ''ENS160 - AQI: %d, TVOC: %d ppb, CO2: %d ppm'' [AInt 1, AInt 0, AInt 400]
              (s\<lparr>g_co2 := 400, g_voc := 0\<rparr>))"
  by (simp add: readENS160_def ens160_short_def requestFrom_def read_u16_def)

lemma readGL5539_10:
  "readGL5539 10 s =
     Inr (True, print ''GL5539 - ADC: %d, resistance: %.0f Ohm, light: %.1f lux''
                  [AInt 10, AFloat (12926233 / 131072), AFloat 2000]
                  (s\<lparr>g_light_level := 2000\<rparr>))"
proof -
  have r: "ldrResistance 10 = Inr (12926233 / 131072)" by code_simp
  have l: "lux_of (12926233 / 131072) = Inr 2000" by code_simp
  show ?thesis by (simp add: readGL5539_def r l GL5539_ADC_MAX_def to_int_def)
qed

lemma readGL5539_1023:
  "readGL5539 1023 s = Inr (False, print ''GL5539 read failed: too dark or sensor fault'' [] s)"
  by (simp add: readGL5539_def GL5539_ADC_MAX_def)

lemma poll_dead_drivers:
  "readAHT21 (aht21 poll_dead) s = (False, print ''AHT21 send command failed'' [] s)"
  "readENS160 (ens160 poll_dead) s = (False, print ''ENS160 communication failed'' [] s)"
  "readGL5539 (adc poll_dead) s =
     Inr (False, print ''GL5539 read failed: too dark or sensor fault'' [] s)"
  by (simp_all add: poll_dead_def readAHT21_def readENS160_def readGL5539_1023)

lemma poll_good_drivers:
  "fst (readAHT21 (aht21 poll_good) s)"
  "fst (readENS160 (ens160 poll_good) s)"
  "\<exists>s'. readGL5539 (adc poll_good) s = Inr (True, s')"
  by (simp_all add: poll_good_def readAHT21_50_25 readENS160_450_20 readGL5539_10)

lemma readAllSensors_poll_good:
  "\<exists>s'. readAllSensors poll_good boot = Inr (True, s')"
proof -
  obtain ok1 s1 ok2 s2 ok3 s3 where d:
    "readAHT21 (aht21 poll_good) (print ''reading all sensor data...'' [] boot) = (ok1, s1)"
    "readENS160 (ens160 poll_good) s1 = (ok2, s2)"
    "readGL5539 (adc poll_good) s2 = Inr (ok3, s3)"
    by (rule drivers_run)
  have "ok1" using d(1) poll_good_drivers(1) [of "print ''reading all sensor data...'' [] boot"]
    by simp
  then show ?thesis unfolding readAllSensors_unfold [OF d] by simp
qed

section \<open>The validity gate and the clock\<close>

lemma millis_diff:
  assumes "t0 \<le> t"
  shows "unat (millis t - millis t0) = (t - t0) mod 2 ^ 32"
proof -
  have "millis t - millis t0 = millis (t - t0)"
    using assms by (simp add: millis_def of_nat_diff)
  then show ?thesis by (simp add: millis_def unat_of_nat)
qed

lemma isSensorDataValid_unat:
  "isSensorDataValid s now = (g_sensor_data_valid s \<and> unat (now - g_last_sensor_update s) < 60000)"
  by (simp add: isSensorDataValid_def word_less_nat_alt)

lemma readAllSensors_success:
  assumes "readAllSensors io s0 = Inr (True, s)"
  shows "g_sensor_data_valid s" and "g_last_sensor_update s = poll_millis io"
  using readAllSensors_effect [of io s0] assms by auto

section \<open>The branches of the bus drivers\<close>

lemma readAHT21_cases:
  obtains
    "aht_error io \<noteq> 0 \<or> length (requestFrom 6 (aht_answer io)) \<noteq> 6"
      "readAHT21 io s = (False, print ''AHT21 send command failed'' [] s) \<or>
       readAHT21 io s = (False, print ''AHT21 read data failed'' [] s)"
  | d0 d1 d2 d3 d4 d5 where
      "aht_error io = 0" "requestFrom 6 (aht_answer io) = [d0, d1, d2, d3, d4, d5]"
      "d0 AND 0x80 \<noteq> 0"
      "readAHT21 io s = (False, print ''AHT21 device busy, retry later'' [] s)"
  | d0 d1 d2 d3 d4 d5 where
      "aht_error io = 0" "requestFrom 6 (aht_answer io) = [d0, d1, d2, d3, d4, d5]"
      "d0 AND 0x80 = 0"
      "- 40 < aht21_temperature (aht21_temperature_raw d3 d4 d5)"
      "aht21_temperature (aht21_temperature_raw d3 d4 d5) < 85"
      "0 \<le> aht21_humidity (aht21_humidity_raw d1 d2 d3)"
      "aht21_humidity (aht21_humidity_raw d1 d2 d3) \<le> 100"
      "readAHT21 io s = (True,
         print ''AHT21 - temperature: %.1f C, humidity: %.1f %%''
           [AFloat (aht21_temperature (aht21_temperature_raw d3 d4 d5)),
            AFloat (aht21_humidity (aht21_humidity_raw d1 d2 d3))]
           (s\<lparr>g_temperature := aht21_temperature (aht21_temperature_raw d3 d4 d5),
               g_humidity := aht21_humidity (aht21_humidity_raw d1 d2 d3)\<rparr>))"
  | d0 d1 d2 d3 d4 d5 where
      "aht_error io = 0" "requestFrom 6 (aht_answer io) = [d0, d1, d2, d3, d4, d5]"
      "d0 AND 0x80 = 0"
      "\<not> (- 40 < aht21_temperature (aht21_temperature_raw d3 d4 d5) \<and>
          aht21_temperature (aht21_temperature_raw d3 d4 d5) < 85 \<and>
          0 \<le> aht21_humidity (aht21_humidity_raw d1 d2 d3) \<and>
          aht21_humidity (aht21_humidity_raw d1 d2 d3) \<le> 100)"
      "readAHT21 io s = (False, print ''AHT21 data out of normal range'' [] s)"
proof (cases "aht_error io \<noteq> 0 \<or> length (requestFrom 6 (aht_answer io)) \<noteq> 6")
  case True
  then have "readAHT21 io s = (False, print ''AHT21 send command failed'' [] s) \<or>
             readAHT21 io s = (False, print ''AHT21 read data failed'' [] s)"
    by (auto simp: readAHT21_def split: list.split)
  then show ?thesis using that(1) True by blast
next
  case False
  then obtain d0 d1 d2 d3 d4 d5 where d: "requestFrom 6 (aht_answer io) = [d0, d1, d2, d3, d4, d5]"
    by (auto simp: length_Suc_conv eval_nat_numeral)
  show ?thesis
  proof (cases "d0 AND 0x80 \<noteq> 0")
    case True
    then show ?thesis using that(2) [OF _ d] False d by (simp add: readAHT21_def)
  next
    case nb: False
    show ?thesis
    proof (cases "- 40 < aht21_temperature (aht21_temperature_raw d3 d4 d5) \<and>
          aht21_temperature (aht21_temperature_raw d3 d4 d5) < 85 \<and>
          0 \<le> aht21_humidity (aht21_humidity_raw d1 d2 d3) \<and>
          aht21_humidity (aht21_humidity_raw d1 d2 d3) \<le> 100")
      case True
      then show ?thesis using that(3) [OF _ d] False d nb by (simp add: readAHT21_def Let_def)
    next
      case oor: False
      then show ?thesis using that(4) [OF _ d] False d nb by (simp add: readAHT21_def Let_def)
    qed
  qed
qed

lemma read_u16_short: "length buf < 2 \<Longrightarrow> read_u16 dflt buf = dflt"
  by (cases buf; cases "tl buf") (simp_all add: read_u16_def)

lemma readENS160_ready:
  assumes "status_error io = 0" and "requestFrom 1 (status_answer io) = status # rest"
    and "status AND 0x02 \<noteq> 0"
  shows "readENS160 io s =
    (let aqi = (case requestFrom 1 (aqi_answer io) of a # _ \<Rightarrow> a | [] \<Rightarrow> 0);
         tvoc = read_u16 0 (requestFrom 2 (tvoc_answer io));
         co2 = read_u16 400 (requestFrom 2 (eco2_answer io))
     in if 300 < uint co2 \<and> uint co2 < 5000 \<and> uint tvoc < 10000
        then (True,
          print ''ENS160 - AQI: %d, TVOC: %d ppb, CO2: %d ppm''
            [AInt (uint aqi), AInt (uint tvoc), AInt (uint co2)]
            (s\<lparr>g_co2 := uint co2, g_voc := uint tvoc\<rparr>))
        else (False, print ''ENS160 data out of normal range'' [] s))"
  using assms by (simp add: readENS160_def)

lemma readENS160_not_ready:
  assumes "status_error io \<noteq> 0 \<or> requestFrom 1 (status_answer io) = [] \<or>
    (\<exists>status rest. requestFrom 1 (status_answer io) = status # rest \<and> status AND 0x02 = 0)"
  shows "\<not> fst (readENS160 io s)"
    and "g_co2 (snd (readENS160 io s)) = g_co2 s"
    and "g_voc (snd (readENS160 io s)) = g_voc s"
  using assms by (auto simp: readENS160_def print_def)

section \<open>The dispatcher only prints\<close>

lemma foldl_print_keys:
  "foldl (\<lambda>t key. print fmt [AStr key] t) s keys =
     s\<lparr>serial := serial s @ map (\<lambda>key. Line fmt [AStr key]) keys\<rparr>"
  by (induction keys arbitrary: s) (simp_all add: print_def)

lemma log_result_logs: "\<exists>lines. log_result s r = s\<lparr>serial := serial s @ lines\<rparr>"
  by (auto simp: log_result_def print_def Let_def)

lemma foldl_log_result: "\<exists>lines. foldl log_result s rs = s\<lparr>serial := serial s @ lines\<rparr>"
proof (induction rs arbitrary: s)
  case Nil
  show ?case by (rule exI [of _ "[]"]) simp
next
  case (Cons r rs)
  obtain l1 where 1: "log_result s r = s\<lparr>serial := serial s @ l1\<rparr>"
    using log_result_logs by blast
  obtain l2 where 2: "foldl log_result (log_result s r) rs =
      (log_result s r)\<lparr>serial := serial (log_result s r) @ l2\<rparr>"
    using Cons.IH by blast
  have "foldl log_result s (r # rs) = s\<lparr>serial := serial s @ (l1 @ l2)\<rparr>"
    using 2 by (simp add: 1)
  then show ?case by blast
qed

lemma handleMessage_logs:
  "\<exists>lines. handleMessage message s = s\<lparr>serial := serial s @ lines\<rparr>"
proof (cases message)
  case (Malformed e)
  then show ?thesis by (auto simp: handleMessage_def print_def)
next
  case (Decoded doc)
  define s1 where "s1 = print ''Processing message type: %s for room: %s''
                       [AStr (env_type doc), AStr TARGET_ROOM] s"
  have s1: "s1 = s\<lparr>serial := serial s @
      [Line ''Processing message type: %s for room: %s'' [AStr (env_type doc), AStr TARGET_ROOM]]\<rparr>"
    by (simp add: s1_def print_def)
  have lift: "\<exists>lines. t = s\<lparr>serial := serial s @ lines\<rparr>"
    if "\<exists>lines. t = s1\<lparr>serial := serial s1 @ lines\<rparr>" for t
  proof -
    from that obtain l where "t = s1\<lparr>serial := serial s1 @ l\<rparr>" by blast
    then have "t = s\<lparr>serial := serial s @
      ([Line ''Processing message type: %s for room: %s'' [AStr (env_type doc), AStr TARGET_ROOM]] @ l)\<rparr>"
      by (simp add: s1)
    then show ?thesis by blast
  qed
  consider (ignore) "env_location doc \<noteq> [] \<and> env_location doc \<noteq> TARGET_ROOM"
    | (init) "\<not> (env_location doc \<noteq> [] \<and> env_location doc \<noteq> TARGET_ROOM)"
        "env_type doc = ''init''"
    | (results) "\<not> (env_location doc \<noteq> [] \<and> env_location doc \<noteq> TARGET_ROOM)"
        "env_type doc = ''control_results''"
    | (update) "\<not> (env_location doc \<noteq> [] \<and> env_location doc \<noteq> TARGET_ROOM)"
        "env_type doc = ''sensor_update''"
    | (device) "\<not> (env_location doc \<noteq> [] \<and> env_location doc \<noteq> TARGET_ROOM)"
        "env_type doc = ''device_update''"
    | (error) "\<not> (env_location doc \<noteq> [] \<and> env_location doc \<noteq> TARGET_ROOM)"
        "env_type doc = ''error''"
    | (other) "\<not> (env_location doc \<noteq> [] \<and> env_location doc \<noteq> TARGET_ROOM)"
        "env_type doc \<noteq> ''init''" "env_type doc \<noteq> ''control_results''"
        "env_type doc \<noteq> ''sensor_update''" "env_type doc \<noteq> ''device_update''"
        "env_type doc \<noteq> ''error''"
    by blast
  then show ?thesis
  proof cases
    case ignore
    then have "handleMessage message s =
        s\<lparr>serial := serial s @
          [Line ''Ignoring message from room: %s (not our target room: %s)''
             [AStr (env_location doc), AStr TARGET_ROOM]]\<rparr>"
      using Decoded by (simp add: handleMessage_def print_def)
    then show ?thesis by blast
  next
    case init
    have "handleMessage message s =
        (let s2 = print ''IoT Service initialization received for room: %s'' [AStr TARGET_ROOM] s1
         in case env_devices doc of
              None \<Rightarrow> s2
            | Some keys \<Rightarrow>
                foldl (\<lambda>t key. print ''   - %s'' [AStr key] t)
                  (print ''Available devices in %s:'' [AStr TARGET_ROOM] s2) keys)"
      using init Decoded unfolding handleMessage_def s1_def by auto
    then have "\<exists>lines. handleMessage message s = s1\<lparr>serial := serial s1 @ lines\<rparr>"
      by (cases "env_devices doc") (simp_all add: foldl_print_keys, auto simp: print_def)
    then show ?thesis by (rule lift)
  next
    case results
    have eq: "handleMessage message s =
        (let s2 = print ''Control command results received for room: %s'' [AStr TARGET_ROOM] s1
         in case env_results doc of None \<Rightarrow> s2 | Some rs \<Rightarrow> foldl log_result s2 rs)"
      using results Decoded unfolding handleMessage_def s1_def by auto
    have "\<exists>lines. handleMessage message s = s1\<lparr>serial := serial s1 @ lines\<rparr>"
    proof (cases "env_results doc")
      case None
      then show ?thesis unfolding eq by (auto simp: print_def)
    next
      case (Some rs)
      obtain l where "foldl log_result
          (print ''Control command results received for room: %s'' [AStr TARGET_ROOM] s1) rs =
          (print ''Control command results received for room: %s'' [AStr TARGET_ROOM] s1)
            \<lparr>serial := serial (print ''Control command results received for room: %s''
                 [AStr TARGET_ROOM] s1) @ l\<rparr>"
        using foldl_log_result by blast
      then have "handleMessage message s = s1\<lparr>serial := serial s1 @
          ([Line ''Control command results received for room: %s'' [AStr TARGET_ROOM]] @ l)\<rparr>"
        unfolding eq using Some by (simp add: print_def)
      then show ?thesis by blast
    qed
    then show ?thesis by (rule lift)
  next
    case update
    have "handleMessage message s =
        (let s2 = print ''Sensor update from our room: %s'' [AStr TARGET_ROOM] s1
         in case env_sensors doc of
              None \<Rightarrow> s2
            | Some sensors \<Rightarrow>
                print ''   Data source: %s (%s)''
                  [AStr (view_source sensors),
                   AStr (if view_real_data sensors then ''Real'' else ''Simulated'')]
                 (print ''   Light: %d lux, Motion: %s''
                    [AInt (view_light_level sensors),
                     AStr (if view_motion sensors then ''Detected'' else ''None'')]
                   (print ''   CO2: %d ppm, VOC: %d ppb''
                      [AInt (view_co2 sensors), AInt (view_voc sensors)]
                     (print ''   Current data - Temp: %.1f C, Humidity: %.1f%%''
                        [AFloat (view_temperature sensors),
                         AFloat (view_humidity sensors)] s2))))"
      using update Decoded unfolding handleMessage_def s1_def by auto
    then have "\<exists>lines. handleMessage message s = s1\<lparr>serial := serial s1 @ lines\<rparr>"
      by (cases "env_sensors doc") (auto simp: print_def)
    then show ?thesis by (rule lift)
  next
    case device
    have "handleMessage message s =
        print ''Device update in our room %s: %s'' [AStr TARGET_ROOM, AStr (env_device doc)] s1"
      using device Decoded unfolding handleMessage_def s1_def by auto
    then have "\<exists>lines. handleMessage message s = s1\<lparr>serial := serial s1 @ lines\<rparr>"
      by (auto simp: print_def)
    then show ?thesis by (rule lift)
  next
    case error
    have "handleMessage message s =
        print ''Error from server for room %s: %s'' [AStr TARGET_ROOM, AStr (env_message doc)] s1"
      using error Decoded unfolding handleMessage_def s1_def by auto
    then have "\<exists>lines. handleMessage message s = s1\<lparr>serial := serial s1 @ lines\<rparr>"
      by (auto simp: print_def)
    then show ?thesis by (rule lift)
  next
    case other
    have "handleMessage message s =
        print ''Other message type for room %s: %s'' [AStr TARGET_ROOM, AStr (env_type doc)] s1"
      using other Decoded unfolding handleMessage_def s1_def by auto
    then have "\<exists>lines. handleMessage message s = s1\<lparr>serial := serial s1 @ lines\<rparr>"
      by (auto simp: print_def)
    then show ?thesis by (rule lift)
  qed
qed


section \<open>The composer: what is sent, and the synthesised values\<close>

lemma random_range:
  assumes "lo < hi"
  shows "lo \<le> random lo hi raw" and "random lo hi raw < hi"
proof -
  have m: "0 \<le> int raw mod (hi - lo)" "int raw mod (hi - lo) < hi - lo"
    using assms by simp_all
  have eq: "random lo hi raw = lo + int raw mod (hi - lo)"
    using assms by (simp add: random_def)
  show "lo \<le> random lo hi raw" using m(1) unfolding eq by linarith
  show "random lo hi raw < hi" using m(2) unfolding eq by linarith
qed

lemma simulated_temperature_range:
  "23 \<le> f32 (f64 (23.5 + f64 (of_int (random (- 50) 50 raw) / 100)))"
  "f32 (f64 (23.5 + f64 (of_int (random (- 50) 50 raw) / 100))) \<le> 24"
proof -
  define r where "r = random (- 50) 50 raw"
  have r: "- 50 \<le> r" "r < 50" using random_range [of "- 50" 50 raw] by (simp_all add: r_def)
  define x where "x = f64 (of_int r / 100)"
  have "of_int (- 1) * 2 powi (- 1) \<le> (of_int r / 100 :: real)" using r by (simp add: power_int_minus)
  then have "of_int (- 1) * 2 powi (- 1) \<le> x" unfolding x_def by (intro f64_lower) simp_all
  then have lo: "- (1 / 2) \<le> x" by (simp add: power_int_minus)
  have "(of_int r / 100 :: real) \<le> of_int 1 * 2 powi (- 1)" using r by (simp add: power_int_minus)
  then have "x \<le> of_int 1 * 2 powi (- 1)" unfolding x_def by (intro f64_upper) simp_all
  then have hi: "x \<le> 1 / 2" by (simp add: power_int_minus)
  define y where "y = f64 (23.5 + x)"
  have "of_int 23 * 2 powi 0 \<le> 23.5 + x" using lo by simp
  then have "of_int 23 * 2 powi 0 \<le> y" unfolding y_def by (intro f64_lower) simp_all
  then have ylo: "of_int 23 * 2 powi 0 \<le> y" .
  have "23.5 + x \<le> of_int 24 * 2 powi 0" using hi by simp
  then have yhi: "y \<le> of_int 24 * 2 powi 0" unfolding y_def by (intro f64_upper) simp_all
  have "of_int 23 * 2 powi 0 \<le> f32 y" using ylo by (intro f32_lower) simp_all
  moreover have "f32 y \<le> of_int 24 * 2 powi 0" using yhi by (intro f32_upper) simp_all
  ultimately show "23 \<le> f32 (f64 (23.5 + f64 (of_int (random (- 50) 50 raw) / 100)))"
    "f32 (f64 (23.5 + f64 (of_int (random (- 50) 50 raw) / 100))) \<le> 24"
    by (simp_all add: y_def x_def r_def)
qed

lemma simulated_humidity_range:
  "53 \<le> f32 (f64 (55 + f64 (of_int (random (- 200) 200 raw) / 100)))"
  "f32 (f64 (55 + f64 (of_int (random (- 200) 200 raw) / 100))) \<le> 57"
proof -
  define r where "r = random (- 200) 200 raw"
  have r: "- 200 \<le> r" "r < 200" using random_range [of "- 200" 200 raw] by (simp_all add: r_def)
  define x where "x = f64 (of_int r / 100)"
  have "of_int (- 2) * 2 powi 0 \<le> (of_int r / 100 :: real)" using r by simp
  then have "of_int (- 2) * 2 powi 0 \<le> x" unfolding x_def by (intro f64_lower) simp_all
  then have lo: "- 2 \<le> x" by simp
  have "(of_int r / 100 :: real) \<le> of_int 2 * 2 powi 0" using r by simp
  then have "x \<le> of_int 2 * 2 powi 0" unfolding x_def by (intro f64_upper) simp_all
  then have hi: "x \<le> 2" by simp
  define y where "y = f64 (55 + x)"
  have "of_int 53 * 2 powi 0 \<le> 55 + x" using lo by simp
  then have ylo: "of_int 53 * 2 powi 0 \<le> y" unfolding y_def by (intro f64_lower) simp_all
  have "55 + x \<le> of_int 57 * 2 powi 0" using hi by simp
  then have yhi: "y \<le> of_int 57 * 2 powi 0" unfolding y_def by (intro f64_upper) simp_all
  have "of_int 53 * 2 powi 0 \<le> f32 y" using ylo by (intro f32_lower) simp_all
  moreover have "f32 y \<le> of_int 57 * 2 powi 0" using yhi by (intro f32_upper) simp_all
  ultimately show "53 \<le> f32 (f64 (55 + f64 (of_int (random (- 200) 200 raw) / 100)))"
    "f32 (f64 (55 + f64 (of_int (random (- 200) 200 raw) / 100))) \<le> 57"
    by (simp_all add: y_def x_def r_def)
qed

lemma sendSensorData_tx:
  "ws_tx (sendSensorData io s) =
     (if wsConnected s
      then ws_tx s @
        [sensor_doc
           (if g_sensor_data_valid s \<and> isSensorDataValid s (gate_millis io) then g_temperature s
            else f32 (f64 (23.5 + f64 (of_int (random (- 50) 50 (raw_temperature io)) / 100))))
           (if g_sensor_data_valid s \<and> isSensorDataValid s (gate_millis io) then g_humidity s
            else f32 (f64 (55 + f64 (of_int (random (- 200) 200 (raw_humidity io)) / 100))))
           (if g_sensor_data_valid s \<and> isSensorDataValid s (gate_millis io) then g_co2 s
            else 420 + random (- 50) 80 (raw_co2 io))
           (if g_sensor_data_valid s \<and> isSensorDataValid s (gate_millis io) then g_voc s
            else 15 + random (- 10) 25 (raw_voc io))
           (if g_sensor_data_valid s \<and> isSensorDataValid s (gate_millis io) then g_light_level s
            else 300 + random (- 100) 300 (raw_light io))
           (if g_sensor_data_valid s \<and> isSensorDataValid s (gate_millis io) then g_motion s
            else random 0 100 (raw_motion io) < 10)
           (mac_address io) (g_sensor_data_valid s) (stamp_millis io)]
      else ws_tx s)"
  by (simp add: sendSensorData_def Let_def print_def)

lemma sendSensorData_frame:
  "g_sensor_data_valid (sendSensorData io s) = g_sensor_data_valid s"
  "g_last_sensor_update (sendSensorData io s) = g_last_sensor_update s"
  "wsConnected (sendSensorData io s) = wsConnected s"
  by (simp_all add: sendSensorData_def Let_def print_def)

lemma sensor_doc_tags:
  "parameter ''source'' (sensor_doc t h c v l m mac valid now) =
     Some (JStr (if valid then ''esp8266_real_sensors'' else ''esp8266_simulated''))"
  "parameter ''data_type'' (sensor_doc t h c v l m mac valid now) =
     Some (JStr (if valid then ''real'' else ''simulated''))"
  "parameter ''co2'' (sensor_doc t h c v l m mac valid now) = Some (JInt c)"
  "parameter ''voc'' (sensor_doc t h c v l m mac valid now) = Some (JInt v)"
  "field ''type'' (sensor_doc t h c v l m mac valid now) = Some (JStr ''control'')"
  by (simp_all add: parameter_def field_def sensor_doc_def)

text \<open>With a fresh reading the stored values go out, tagged real.\<close>

lemma sendSensorData_fresh:
  assumes "wsConnected s" and "isSensorDataValid s (gate_millis io)"
  shows "ws_tx (sendSensorData io s) = ws_tx s @
     [sensor_doc (g_temperature s) (g_humidity s) (g_co2 s) (g_voc s) (g_light_level s)
        (g_motion s) (mac_address io) True (stamp_millis io)]"
  using assms by (simp add: sendSensorData_tx isSensorDataValid_def)

lemma send_66s_stale:
  "g_sensor_data_valid polled_at_5s" "wsConnected polled_at_5s"
  "\<not> isSensorDataValid polled_at_5s (gate_millis send_66s)"
  by (simp_all add: polled_at_5s_def send_66s_def isSensorDataValid_def)

lemma send_66s_stale_doc:
  assumes "wsConnected s" and "g_sensor_data_valid s"
    and "\<not> isSensorDataValid s (gate_millis send_66s)"
  shows "ws_tx (sendSensorData send_66s s) =
     ws_tx s @ [sensor_doc 23 53 370 5 200 True ''5C:CF:7F:00:00:01'' True 66000]"
proof -
  have t: "f32 (f64 (23.5 + f64 (of_int (- 50) / 100))) = 23" by code_simp
  have h: "f32 (f64 (55 + f64 (of_int (- 200) / 100))) = 53" by code_simp
  have r: "random (- 50) 50 0 = - 50" "random (- 200) 200 0 = - 200" "random (- 50) 80 0 = - 50"
    "random (- 10) 25 0 = - 10" "random (- 100) 300 0 = - 100" "random 0 100 0 = 0"
    by (simp_all add: random_def)
  have v: "raw_temperature send_66s = 0" "raw_humidity send_66s = 0" "raw_co2 send_66s = 0"
    "raw_voc send_66s = 0" "raw_light send_66s = 0" "raw_motion send_66s = 0"
    "mac_address send_66s = ''5C:CF:7F:00:00:01''" "stamp_millis send_66s = 66000"
    by (simp_all add: send_66s_def)
  show ?thesis using assms t h by (simp add: sendSensorData_tx v r)
qed

lemma readAllSensors_poll_dead:
  "readAllSensors poll_dead s =
     Inr (False, print ''no sensor data was read'' []
       ((print ''GL5539 read failed: too dark or sensor fault'' []
          (print ''ENS160 communication failed'' []
            (print ''AHT21 send command failed'' []
              (print ''reading all sensor data...'' [] s))))
        \<lparr>g_motion := (random 0 100 (motion_raw poll_dead) < 5)\<rparr>))"
  using readAllSensors_unfold [OF poll_dead_drivers(1) poll_dead_drivers(2) poll_dead_drivers(3),
    of s] by simp

section \<open>The operations of the loop: the flag and the transport\<close>

lemma sendPing_tx:
  "ws_tx (sendPing io s) =
     (if wsConnected s
      then ws_tx s @ [ping_doc (ping_mac_address io) (ping_millis io) (g_sensor_data_valid s)]
      else ws_tx s)"
  "g_sensor_data_valid (sendPing io s) = g_sensor_data_valid s"
  by (simp_all add: sendPing_def print_def)

lemma handleMessage_frame:
  "g_sensor_data_valid (handleMessage message s) = g_sensor_data_valid s"
  "ws_tx (handleMessage message s) = ws_tx s"
proof -
  obtain lines where l: "handleMessage message s = s\<lparr>serial := serial s @ lines\<rparr>"
    using handleMessage_logs by blast
  show "g_sensor_data_valid (handleMessage message s) = g_sensor_data_valid s"
    "ws_tx (handleMessage message s) = ws_tx s"
    unfolding l by simp_all
qed

lemma webSocketEvent_frame:
  "g_sensor_data_valid (webSocketEvent type io s) = g_sensor_data_valid s"
  "ws_tx (webSocketEvent type io s) = ws_tx s"
  by (cases type; simp add: webSocketEvent_def print_def handleMessage_frame Let_def)+

lemma ping_doc_type: "field ''type'' (ping_doc mac now valid) = Some (JStr ''ping'')"
  by (simp add: ping_doc_def field_def)

lemma exec_effect:
  "\<exists>s' new. exec x s = Inr s' \<and> ws_tx s' = ws_tx s @ new \<and>
     (g_sensor_data_valid s' \<noteq> g_sensor_data_valid s \<longrightarrow>
        g_sensor_data_valid s' \<and> (\<exists>io. x = ReadAllSensors io \<and> readAllSensors io s = Inr (True, s'))) \<and>
     (\<forall>doc\<in>set new. field ''type'' doc = Some (JStr ''control'') \<longrightarrow>
        parameter ''source'' doc =
          Some (JStr (if g_sensor_data_valid s then ''esp8266_real_sensors'' else ''esp8266_simulated'')) \<and>
        parameter ''data_type'' doc =
          Some (JStr (if g_sensor_data_valid s then ''real'' else ''simulated'')))"
proof (cases x)
  case (ReadAllSensors io)
  obtain anyDataRead s' where r: "readAllSensors io s = Inr (anyDataRead, s')"
    "g_sensor_data_valid s' = (g_sensor_data_valid s \<or> anyDataRead)" "ws_tx s' = ws_tx s"
    using readAllSensors_effect [of io s] by blast
  have "exec x s = Inr s'" using ReadAllSensors r(1) by simp
  moreover have "ws_tx s' = ws_tx s @ []" using r(3) by simp
  moreover have "g_sensor_data_valid s' \<noteq> g_sensor_data_valid s \<longrightarrow>
        g_sensor_data_valid s' \<and> (\<exists>io. x = ReadAllSensors io \<and> readAllSensors io s = Inr (True, s'))"
    using r ReadAllSensors by auto
  ultimately show ?thesis by (intro exI [of _ s'] exI [of _ "[]"]) auto
next
  case (SendSensorData io)
  show ?thesis
  proof (cases "wsConnected s")
    case True
    then obtain doc where d: "ws_tx (sendSensorData io s) = ws_tx s @ [doc]"
      "parameter ''source'' doc =
          Some (JStr (if g_sensor_data_valid s then ''esp8266_real_sensors'' else ''esp8266_simulated''))"
      "parameter ''data_type'' doc =
          Some (JStr (if g_sensor_data_valid s then ''real'' else ''simulated''))"
      by (simp add: sendSensorData_tx sensor_doc_tags)
    show ?thesis using SendSensorData d
      by (intro exI [of _ "sendSensorData io s"] exI [of _ "[doc]"])
         (simp add: sendSensorData_frame)
  next
    case False
    then have "ws_tx (sendSensorData io s) = ws_tx s @ []" by (simp add: sendSensorData_tx)
    then show ?thesis using SendSensorData
      by (intro exI [of _ "sendSensorData io s"] exI [of _ "[]"])
         (simp add: sendSensorData_frame)
  qed
next
  case (SendPing io)
  have "ws_tx (sendPing io s) = ws_tx s @
      (if wsConnected s
       then [ping_doc (ping_mac_address io) (ping_millis io) (g_sensor_data_valid s)] else [])"
    by (simp add: sendPing_tx)
  then show ?thesis using SendPing
    by (intro exI [of _ "sendPing io s"] exI [of _ "if wsConnected s
       then [ping_doc (ping_mac_address io) (ping_millis io) (g_sensor_data_valid s)] else []"])
       (simp add: sendPing_tx ping_doc_type)
next
  case (HandleMessage message)
  then show ?thesis
    by (intro exI [of _ "handleMessage message s"] exI [of _ "[]"])
       (simp add: handleMessage_frame)
next
  case (WebSocketEvent type io)
  then show ?thesis
    by (intro exI [of _ "webSocketEvent type io s"] exI [of _ "[]"])
       (simp add: webSocketEvent_frame)
qed

lemma run_effect:
  "\<exists>s' new. run xs s = Inr s' \<and> ws_tx s' = ws_tx s @ new \<and>
     (g_sensor_data_valid s \<longrightarrow> g_sensor_data_valid s' \<and>
        (\<forall>doc\<in>set new. field ''type'' doc = Some (JStr ''control'') \<longrightarrow>
           parameter ''source'' doc = Some (JStr ''esp8266_real_sensors'') \<and>
           parameter ''data_type'' doc = Some (JStr ''real'')))"
proof (induction xs arbitrary: s)
  case Nil
  show ?case by (intro exI [of _ s] exI [of _ "[]"]) simp
next
  case (Cons x xs)
  obtain s1 n1 where 1: "exec x s = Inr s1" "ws_tx s1 = ws_tx s @ n1"
    "g_sensor_data_valid s1 \<noteq> g_sensor_data_valid s \<longrightarrow> g_sensor_data_valid s1"
    "\<forall>doc\<in>set n1. field ''type'' doc = Some (JStr ''control'') \<longrightarrow>
        parameter ''source'' doc =
          Some (JStr (if g_sensor_data_valid s then ''esp8266_real_sensors'' else ''esp8266_simulated'')) \<and>
        parameter ''data_type'' doc =
          Some (JStr (if g_sensor_data_valid s then ''real'' else ''simulated''))"
    using exec_effect [of x s] by blast
  obtain s2 n2 where 2: "run xs s1 = Inr s2" "ws_tx s2 = ws_tx s1 @ n2"
    "g_sensor_data_valid s1 \<longrightarrow> g_sensor_data_valid s2 \<and>
        (\<forall>doc\<in>set n2. field ''type'' doc = Some (JStr ''control'') \<longrightarrow>
           parameter ''source'' doc = Some (JStr ''esp8266_real_sensors'') \<and>
           parameter ''data_type'' doc = Some (JStr ''real''))"
    using Cons.IH [of s1] by blast
  have a: "run (x # xs) s = Inr s2" using 1(1) 2(1) by simp
  have b: "ws_tx s2 = ws_tx s @ (n1 @ n2)" using 1(2) 2(2) by simp
  have c: "g_sensor_data_valid s \<longrightarrow> g_sensor_data_valid s2 \<and>
        (\<forall>doc\<in>set (n1 @ n2). field ''type'' doc = Some (JStr ''control'') \<longrightarrow>
           parameter ''source'' doc = Some (JStr ''esp8266_real_sensors'') \<and>
           parameter ''data_type'' doc = Some (JStr ''real''))"
  proof
    assume v: "g_sensor_data_valid s"
    then have v1: "g_sensor_data_valid s1" using 1(3) by blast
    have "\<forall>doc\<in>set n1. field ''type'' doc = Some (JStr ''control'') \<longrightarrow>
           parameter ''source'' doc = Some (JStr ''esp8266_real_sensors'') \<and>
           parameter ''data_type'' doc = Some (JStr ''real'')"
      using 1(4) v by simp
    then show "g_sensor_data_valid s2 \<and>
        (\<forall>doc\<in>set (n1 @ n2). field ''type'' doc = Some (JStr ''control'') \<longrightarrow>
           parameter ''source'' doc = Some (JStr ''esp8266_real_sensors'') \<and>
           parameter ''data_type'' doc = Some (JStr ''real''))"
      using 2(3) v1 by auto
  qed
  show ?case using a b c by blast
qed


section \<open>Claims\<close>

subsection \<open>C1: the tags of a report\<close>

text \<open>
  C1 has the source and data type tags follow the validity gate. The source writes the
  tags from \<open>g_sensor_data_valid\<close> alone. With the last successful poll at 5 seconds
  (450 ppm, 20 ppb) and a send tick at 66 seconds, the gate reports stale and the values
  sent are synthesised (370 ppm, 5 ppb), yet the tags are \<open>esp8266_real_sensors\<close> and
  \<open>real\<close>.
\<close>

theorem sendSensorData_stale_tagged_real:
  "g_sensor_data_valid polled_at_5s \<and> g_last_sensor_update polled_at_5s = millis 5000 \<and>
   gate_millis send_66s = millis 66000 \<and>
   \<not> isSensorDataValid polled_at_5s (gate_millis send_66s) \<and>
   g_co2 polled_at_5s = 450 \<and> g_voc polled_at_5s = 20 \<and>
   (\<exists>doc. ws_tx (sendSensorData send_66s polled_at_5s) = [doc] \<and>
      parameter ''co2'' doc = Some (JInt 370) \<and>
      parameter ''voc'' doc = Some (JInt 5) \<and>
      parameter ''source'' doc = Some (JStr ''esp8266_real_sensors'') \<and>
      parameter ''data_type'' doc = Some (JStr ''real''))"
proof -
  have "g_last_sensor_update polled_at_5s = millis 5000" "gate_millis send_66s = millis 66000"
    "g_co2 polled_at_5s = 450" "g_voc polled_at_5s = 20"
    by (simp_all add: polled_at_5s_def send_66s_def millis_def)
  moreover have "ws_tx (sendSensorData send_66s polled_at_5s) =
      [sensor_doc 23 53 370 5 200 True ''5C:CF:7F:00:00:01'' True 66000]"
    using send_66s_stale_doc [OF send_66s_stale(2) send_66s_stale(1) send_66s_stale(3)]
    by (simp add: polled_at_5s_def boot_def)
  ultimately show ?thesis using send_66s_stale by (simp add: sensor_doc_tags)
qed

subsection \<open>C2: the validity gate\<close>

text \<open>
  C2, as amended. Let the last update be stamped at time \<open>t0\<close> and let \<open>isSensorDataValid\<close>
  be asked at a later time \<open>t\<close>. It returns true if and only if \<open>g_sensor_data_valid\<close> is
  true and the elapsed time \<open>t - t0\<close>, taken modulo \<open>2\<^sup>3\<^sup>2\<close> milliseconds as the 32-bit
  counter measures it, is below 60000. Its result depends on nothing but the flag, the
  stamp and the time, so a change of the sensor values does not change it. After a poll
  cycle with a successful driver it is true for the next 60 seconds, and it is false
  when 60 seconds or more, and less than \<open>2\<^sup>3\<^sup>2\<close> milliseconds (about 49.7 days), have passed.
\<close>

theorem isSensorDataValid_modulo:
  assumes "g_last_sensor_update s = millis t0" and "t0 \<le> t"
  shows "(isSensorDataValid s (millis t) \<longleftrightarrow>
            g_sensor_data_valid s \<and> (t - t0) mod 2 ^ 32 < 60000) \<and>
         (\<forall>s2. g_sensor_data_valid s2 = g_sensor_data_valid s \<and>
               g_last_sensor_update s2 = g_last_sensor_update s \<longrightarrow>
               isSensorDataValid s2 (millis t) = isSensorDataValid s (millis t)) \<and>
         (\<forall>io s0. readAllSensors io s0 = Inr (True, s) \<and> t - t0 < 60000 \<longrightarrow>
               isSensorDataValid s (millis t)) \<and>
         (60000 \<le> t - t0 \<and> t - t0 < 2 ^ 32 \<longrightarrow> \<not> isSensorDataValid s (millis t))"
proof -
  have iff: "isSensorDataValid s (millis t) \<longleftrightarrow>
      g_sensor_data_valid s \<and> (t - t0) mod 2 ^ 32 < 60000"
    using assms by (simp add: isSensorDataValid_unat millis_diff)
  have same: "\<forall>s2. g_sensor_data_valid s2 = g_sensor_data_valid s \<and>
               g_last_sensor_update s2 = g_last_sensor_update s \<longrightarrow>
               isSensorDataValid s2 (millis t) = isSensorDataValid s (millis t)"
    by (simp add: isSensorDataValid_def)
  have small: "(t - t0) mod 2 ^ 32 = t - t0" if "t - t0 < 2 ^ 32"
    using that by simp
  have fresh: "\<forall>io s0. readAllSensors io s0 = Inr (True, s) \<and> t - t0 < 60000 \<longrightarrow>
               isSensorDataValid s (millis t)"
  proof (intro allI impI)
    fix io s0
    assume a: "readAllSensors io s0 = Inr (True, s) \<and> t - t0 < 60000"
    then have "g_sensor_data_valid s" using readAllSensors_success(1) [of io s0 s] by blast
    moreover have "(t - t0) mod 2 ^ 32 < 60000" using a by (subst small) simp_all
    ultimately show "isSensorDataValid s (millis t)" using iff by simp
  qed
  have stale: "60000 \<le> t - t0 \<and> t - t0 < 2 ^ 32 \<longrightarrow> \<not> isSensorDataValid s (millis t)"
    using iff small by simp
  show ?thesis using iff same fresh stale by blast
qed

text \<open>
  After the successful cycle at 5 seconds the gate is open at once and 59.999 seconds
  later, closed 60 seconds later and still closed just before the counter starts again,
  and it does not look at \<open>g_co2\<close>.
\<close>

theorem isSensorDataValid_modulo_witness:
  "\<exists>s. readAllSensors poll_good boot = Inr (True, s) \<and>
       g_last_sensor_update s = millis 5000 \<and>
       isSensorDataValid s (millis 5000) \<and>
       isSensorDataValid s (millis 64999) \<and>
       \<not> isSensorDataValid s (millis 65000) \<and>
       \<not> isSensorDataValid s (millis 4294967295) \<and>
       isSensorDataValid (s\<lparr>g_co2 := 999\<rparr>) (millis 64999)"
proof -
  obtain s where s: "readAllSensors poll_good boot = Inr (True, s)"
    using readAllSensors_poll_good by blast
  have l: "g_last_sensor_update s = millis 5000"
    using readAllSensors_success(2) [OF s] by (simp add: poll_good_def millis_def)
  have v: "g_sensor_data_valid s" by (rule readAllSensors_success(1) [OF s])
  have a: "isSensorDataValid s (millis 5000)"
    using isSensorDataValid_modulo [OF l, of 5000] s by auto
  have b: "isSensorDataValid s (millis 64999)"
    using isSensorDataValid_modulo [OF l, of 64999] s by auto
  have c: "\<not> isSensorDataValid s (millis 65000)"
    using isSensorDataValid_modulo [OF l, of 65000] by simp
  have d: "\<not> isSensorDataValid s (millis 4294967295)"
    using isSensorDataValid_modulo [OF l, of 4294967295] by simp
  have e: "isSensorDataValid (s\<lparr>g_co2 := 999\<rparr>) (millis 64999)"
    using isSensorDataValid_modulo [OF l, of 64999] b by simp
  show ?thesis using s l a b c d e by blast
qed

text \<open>
  C2 as stated has the gate closed once more than 60 seconds have passed. With the last
  update at 5 seconds and no successful cycle since, the gate is open again at
  \<open>2\<^sup>3\<^sup>2 + 6000\<close> milliseconds: the counter reads 6000 there.
\<close>

theorem isSensorDataValid_wraps_counterexample:
  "g_sensor_data_valid polled_at_5s \<and>
   g_last_sensor_update polled_at_5s = millis 5000 \<and>
   (5000::nat) + 60000 < 4294973296 \<and>
   isSensorDataValid polled_at_5s (millis 4294973296)"
  by (simp add: polled_at_5s_def isSensorDataValid_def millis_def)

subsection \<open>C3: bus failures in the ENS160 read\<close>

text \<open>
  C3, as amended. \<open>readENS160\<close> reports failure when the select of the status register is
  not acknowledged or no status byte arrives, and every failure leaves \<open>g_co2\<close> and \<open>g_voc\<close>
  as they were. Once the status register reports data ready, the selects of the AQI, TVOC
  and eCO2 registers are not checked, and a read of fewer than two bytes stands for
  TVOC 0 and eCO2 400: the driver succeeds exactly when the values so obtained pass the
  plausibility check (eCO2 in \<open>(300, 5000)\<close>, TVOC below 10000), and then stores them.
\<close>

theorem readENS160_failure_modes:
  "(status_error io \<noteq> 0 \<or> requestFrom 1 (status_answer io) = [] \<longrightarrow>
      \<not> fst (readENS160 io s)) \<and>
   (\<not> fst (readENS160 io s) \<longrightarrow>
      g_co2 (snd (readENS160 io s)) = g_co2 s \<and> g_voc (snd (readENS160 io s)) = g_voc s) \<and>
   (\<forall>status rest. status_error io = 0 \<and> requestFrom 1 (status_answer io) = status # rest \<and>
      status AND 0x02 \<noteq> 0 \<longrightarrow>
      fst (readENS160 io s) =
        (300 < uint (read_u16 400 (requestFrom 2 (eco2_answer io))) \<and>
         uint (read_u16 400 (requestFrom 2 (eco2_answer io))) < 5000 \<and>
         uint (read_u16 0 (requestFrom 2 (tvoc_answer io))) < 10000) \<and>
      (fst (readENS160 io s) \<longrightarrow>
         g_co2 (snd (readENS160 io s)) = uint (read_u16 400 (requestFrom 2 (eco2_answer io))) \<and>
         g_voc (snd (readENS160 io s)) = uint (read_u16 0 (requestFrom 2 (tvoc_answer io))))) \<and>
   (length (tvoc_answer io) < 2 \<longrightarrow> read_u16 0 (requestFrom 2 (tvoc_answer io)) = 0) \<and>
   (length (eco2_answer io) < 2 \<longrightarrow> read_u16 400 (requestFrom 2 (eco2_answer io)) = 400)"
proof -
  have a: "status_error io \<noteq> 0 \<or> requestFrom 1 (status_answer io) = [] \<longrightarrow>
      \<not> fst (readENS160 io s)"
    using readENS160_not_ready(1) [of io s] by blast
  have c: "\<forall>status rest. status_error io = 0 \<and> requestFrom 1 (status_answer io) = status # rest \<and>
      status AND 0x02 \<noteq> 0 \<longrightarrow>
      fst (readENS160 io s) =
        (300 < uint (read_u16 400 (requestFrom 2 (eco2_answer io))) \<and>
         uint (read_u16 400 (requestFrom 2 (eco2_answer io))) < 5000 \<and>
         uint (read_u16 0 (requestFrom 2 (tvoc_answer io))) < 10000) \<and>
      (fst (readENS160 io s) \<longrightarrow>
         g_co2 (snd (readENS160 io s)) = uint (read_u16 400 (requestFrom 2 (eco2_answer io))) \<and>
         g_voc (snd (readENS160 io s)) = uint (read_u16 0 (requestFrom 2 (tvoc_answer io))))"
    by (intro allI impI, elim conjE) (simp add: readENS160_ready Let_def print_def)
  have b: "\<not> fst (readENS160 io s) \<longrightarrow>
      g_co2 (snd (readENS160 io s)) = g_co2 s \<and> g_voc (snd (readENS160 io s)) = g_voc s"
  proof (cases "status_error io \<noteq> 0 \<or> requestFrom 1 (status_answer io) = [] \<or>
    (\<exists>status rest. requestFrom 1 (status_answer io) = status # rest \<and> status AND 0x02 = 0)")
    case True
    then show ?thesis using readENS160_not_ready(2,3) [of io s] by blast
  next
    case False
    then obtain status rest where "status_error io = 0"
      "requestFrom 1 (status_answer io) = status # rest" "status AND 0x02 \<noteq> 0"
      by (cases "requestFrom 1 (status_answer io)") auto
    then show ?thesis by (simp add: readENS160_ready Let_def print_def)
  qed
  have d: "length (tvoc_answer io) < 2 \<longrightarrow> read_u16 0 (requestFrom 2 (tvoc_answer io)) = 0"
    "length (eco2_answer io) < 2 \<longrightarrow> read_u16 400 (requestFrom 2 (eco2_answer io)) = 400"
    by (simp_all add: read_u16_short requestFrom_def)
  show ?thesis using a b c d by blast
qed

text \<open>
  A device that does not acknowledge leaves 450 ppm and 20 ppb in place; a device that
  answers 450 and 20 has them stored; two empty answers stand for 0 and 400.
\<close>

theorem readENS160_failure_modes_witness:
  "\<not> fst (readENS160 (ens160 poll_dead) polled_at_5s) \<and>
   g_co2 (snd (readENS160 (ens160 poll_dead) polled_at_5s)) = 450 \<and>
   g_voc (snd (readENS160 (ens160 poll_dead) polled_at_5s)) = 20 \<and>
   fst (readENS160 ens160_450_20 boot) \<and>
   g_co2 (snd (readENS160 ens160_450_20 boot)) = 450 \<and>
   g_voc (snd (readENS160 ens160_450_20 boot)) = 20 \<and>
   read_u16 0 (requestFrom 2 (tvoc_answer ens160_short)) = 0 \<and>
   read_u16 400 (requestFrom 2 (eco2_answer ens160_short)) = 400"
proof -
  have a: "\<not> fst (readENS160 (ens160 poll_dead) polled_at_5s) \<and>
   g_co2 (snd (readENS160 (ens160 poll_dead) polled_at_5s)) = 450 \<and>
   g_voc (snd (readENS160 (ens160 poll_dead) polled_at_5s)) = 20"
    using readENS160_failure_modes [of "ens160 poll_dead" polled_at_5s]
    by (simp add: poll_dead_def polled_at_5s_def)
  have st: "status_error ens160_450_20 = 0"
    "requestFrom 1 (status_answer ens160_450_20) = [0x02]" "(0x02 :: byte) AND 0x02 \<noteq> 0"
    by (simp_all add: ens160_450_20_def requestFrom_def)
  have v: "uint (read_u16 400 (requestFrom 2 (eco2_answer ens160_450_20))) = 450"
    "uint (read_u16 0 (requestFrom 2 (tvoc_answer ens160_450_20))) = 20"
    by (simp_all add: ens160_450_20_def requestFrom_def read_u16_def)
  have b: "fst (readENS160 ens160_450_20 boot) \<and>
   g_co2 (snd (readENS160 ens160_450_20 boot)) = 450 \<and>
   g_voc (snd (readENS160 ens160_450_20 boot)) = 20"
    using readENS160_failure_modes [of ens160_450_20 boot] st v by auto
  have c: "read_u16 0 (requestFrom 2 (tvoc_answer ens160_short)) = 0 \<and>
   read_u16 400 (requestFrom 2 (eco2_answer ens160_short)) = 400"
    using readENS160_failure_modes [of ens160_short boot] by (simp add: ens160_short_def)
  show ?thesis using a b c by blast
qed

text \<open>
  C3 as stated has every read with a failed bus transaction fail and keep \<open>g_co2\<close> and
  \<open>g_voc\<close>. With data ready and both the TVOC and the eCO2 transaction failed, the driver
  reports success and overwrites 450 ppm and 20 ppb by 400 and 0.
\<close>

theorem readENS160_short_read_counterexample:
  "tvoc_error ens160_short \<noteq> 0 \<and> requestFrom 2 (tvoc_answer ens160_short) = [] \<and>
   eco2_error ens160_short \<noteq> 0 \<and> requestFrom 2 (eco2_answer ens160_short) = [] \<and>
   fst (readENS160 ens160_short polled_at_5s) \<and>
   g_co2 polled_at_5s = 450 \<and> g_co2 (snd (readENS160 ens160_short polled_at_5s)) = 400 \<and>
   g_voc polled_at_5s = 20 \<and> g_voc (snd (readENS160 ens160_short polled_at_5s)) = 0"
  by (simp add: readENS160_short print_def) (simp add: ens160_short_def requestFrom_def polled_at_5s_def)

subsection \<open>C4: the validity flag over the loop\<close>

text \<open>
  C4. \<open>g_sensor_data_valid\<close> starts false. An operation of the loop changes it only when
  it is \<open>readAllSensors\<close> with a successful driver, and then to true; \<open>sendSensorData\<close>,
  \<open>sendPing\<close>, \<open>handleMessage\<close> and \<open>webSocketEvent\<close> never write it. So from a state in
  which the flag is true, after any sequence of operations the flag is still true and
  every sensor report handed to the transport in between carries the source
  \<open>esp8266_real_sensors\<close> and the data type \<open>real\<close>, whatever the time. (The bus scan,
  which can clear the flag, is not one of these operations.)
\<close>

theorem valid_flag_monotone:
  "\<not> g_sensor_data_valid boot \<and>
   (\<exists>s'. exec x s = Inr s' \<and>
      (g_sensor_data_valid s' \<noteq> g_sensor_data_valid s \<longrightarrow>
         g_sensor_data_valid s' \<and>
         (\<exists>io. x = ReadAllSensors io \<and> readAllSensors io s = Inr (True, s')))) \<and>
   (\<exists>s' new. run xs s = Inr s' \<and> ws_tx s' = ws_tx s @ new \<and>
      (g_sensor_data_valid s \<longrightarrow> g_sensor_data_valid s' \<and>
         (\<forall>doc\<in>set new. field ''type'' doc = Some (JStr ''control'') \<longrightarrow>
            parameter ''source'' doc = Some (JStr ''esp8266_real_sensors'') \<and>
            parameter ''data_type'' doc = Some (JStr ''real''))))"
proof -
  have a: "\<not> g_sensor_data_valid boot" by (simp add: boot_def)
  have b: "\<exists>s'. exec x s = Inr s' \<and>
      (g_sensor_data_valid s' \<noteq> g_sensor_data_valid s \<longrightarrow>
         g_sensor_data_valid s' \<and>
         (\<exists>io. x = ReadAllSensors io \<and> readAllSensors io s = Inr (True, s')))"
    using exec_effect [of x s] by blast
  show ?thesis using a b run_effect [of xs s] by blast
qed

text \<open>
  After the successful poll at 5 seconds, a poll in which every driver fails and then a
  send tick at 66 seconds: the flag is still true, the gate reports stale, and the report
  is tagged real.
\<close>

theorem valid_flag_monotone_witness:
  "g_sensor_data_valid polled_at_5s \<and>
   (\<exists>s' doc. run [ReadAllSensors poll_dead, SendSensorData send_66s] polled_at_5s = Inr s' \<and>
      ws_tx s' = [doc] \<and> g_sensor_data_valid s' \<and>
      \<not> isSensorDataValid s' (millis 66000) \<and>
      parameter ''source'' doc = Some (JStr ''esp8266_real_sensors'') \<and>
      parameter ''data_type'' doc = Some (JStr ''real''))"
proof -
  define s1 where "s1 = print ''no sensor data was read'' []
       ((print ''GL5539 read failed: too dark or sensor fault'' []
          (print ''ENS160 communication failed'' []
            (print ''AHT21 send command failed'' []
              (print ''reading all sensor data...'' [] polled_at_5s))))
        \<lparr>g_motion := (random 0 100 (motion_raw poll_dead) < 5)\<rparr>)"
  have s1: "wsConnected s1" "g_sensor_data_valid s1" "g_last_sensor_update s1 = 5000"
    "ws_tx s1 = []"
    by (simp_all add: s1_def print_def polled_at_5s_def boot_def)
  have stale: "\<not> isSensorDataValid s1 (gate_millis send_66s)"
    by (simp add: isSensorDataValid_def s1 send_66s_def)
  define doc where "doc = sensor_doc 23 53 370 5 200 True ''5C:CF:7F:00:00:01'' True 66000"
  have tx: "ws_tx (sendSensorData send_66s s1) = [doc]"
    using send_66s_stale_doc [OF s1(1) s1(2) stale] by (simp add: s1 doc_def)
  have run: "run [ReadAllSensors poll_dead, SendSensorData send_66s] polled_at_5s =
      Inr (sendSensorData send_66s s1)"
    by (simp add: readAllSensors_poll_dead s1_def)
  have v: "g_sensor_data_valid polled_at_5s" "ws_tx polled_at_5s = []"
    by (simp_all add: polled_at_5s_def boot_def)
  have ctl: "field ''type'' doc = Some (JStr ''control'')"
    by (simp add: doc_def sensor_doc_tags)
  have still: "\<not> isSensorDataValid (sendSensorData send_66s s1) (millis 66000)"
    by (simp add: isSensorDataValid_def sendSensorData_frame s1 millis_def)
  from valid_flag_monotone
    [where xs = "[ReadAllSensors poll_dead, SendSensorData send_66s]" and s = polled_at_5s]
  obtain s' new where n:
    "run [ReadAllSensors poll_dead, SendSensorData send_66s] polled_at_5s = Inr s'"
    "ws_tx s' = ws_tx polled_at_5s @ new"
    "g_sensor_data_valid polled_at_5s \<longrightarrow> g_sensor_data_valid s' \<and>
         (\<forall>doc\<in>set new. field ''type'' doc = Some (JStr ''control'') \<longrightarrow>
            parameter ''source'' doc = Some (JStr ''esp8266_real_sensors'') \<and>
            parameter ''data_type'' doc = Some (JStr ''real''))"
    by blast
  have eq: "s' = sendSensorData send_66s s1" using n(1) run by simp
  have new: "new = [doc]" using n(2) tx v(2) eq by simp
  have "g_sensor_data_valid s' \<and>
      parameter ''source'' doc = Some (JStr ''esp8266_real_sensors'') \<and>
      parameter ''data_type'' doc = Some (JStr ''real'')"
    using n(3) v(1) new ctl by simp
  then show ?thesis using v(1) n(1) tx still eq by blast
qed

subsection \<open>C5: inbound messages\<close>

text \<open>
  C5. For every inbound message \<open>handleMessage\<close> only appends lines to \<open>Serial\<close>: the sensor
  variables, the validity flag, the time stamp and \<open>wsConnected\<close> stay as they were. A
  decoded message whose location is not empty and differs from \<open>TARGET_ROOM\<close> gets the one
  line that says it is ignored, and nothing that depends on its type.
\<close>

theorem handleMessage_only_logs:
  "(\<exists>lines. handleMessage message s = s\<lparr>serial := serial s @ lines\<rparr>) \<and>
   g_temperature (handleMessage message s) = g_temperature s \<and>
   g_humidity (handleMessage message s) = g_humidity s \<and>
   g_co2 (handleMessage message s) = g_co2 s \<and>
   g_voc (handleMessage message s) = g_voc s \<and>
   g_light_level (handleMessage message s) = g_light_level s \<and>
   g_motion (handleMessage message s) = g_motion s \<and>
   g_sensor_data_valid (handleMessage message s) = g_sensor_data_valid s \<and>
   g_last_sensor_update (handleMessage message s) = g_last_sensor_update s \<and>
   wsConnected (handleMessage message s) = wsConnected s \<and>
   (\<forall>doc. message = Decoded doc \<and> env_location doc \<noteq> [] \<and> env_location doc \<noteq> TARGET_ROOM \<longrightarrow>
      handleMessage message s =
        s\<lparr>serial := serial s @
          [Line ''Ignoring message from room: %s (not our target room: %s)''
             [AStr (env_location doc), AStr TARGET_ROOM]]\<rparr>)"
proof -
  obtain lines where l: "handleMessage message s = s\<lparr>serial := serial s @ lines\<rparr>"
    using handleMessage_logs by blast
  have "\<forall>doc. message = Decoded doc \<and> env_location doc \<noteq> [] \<and> env_location doc \<noteq> TARGET_ROOM \<longrightarrow>
      handleMessage message s =
        s\<lparr>serial := serial s @
          [Line ''Ignoring message from room: %s (not our target room: %s)''
             [AStr (env_location doc), AStr TARGET_ROOM]]\<rparr>"
    by (simp add: handleMessage_def print_def)
  moreover have "\<exists>lines. handleMessage message s = s\<lparr>serial := serial s @ lines\<rparr>"
    using l by blast
  ultimately show ?thesis unfolding l by simp
qed

text \<open>A sensor update for the kitchen, received by the living room.\<close>

theorem handleMessage_only_logs_witness:
  "handleMessage kitchen_update polled_at_5s =
     polled_at_5s\<lparr>serial :=
       [Line ''Ignoring message from room: %s (not our target room: %s)''
          [AStr ''kitchen'', AStr ''living_room'']]\<rparr> \<and>
   g_co2 (handleMessage kitchen_update polled_at_5s) = 450"
proof -
  have "env_location \<lparr>env_type = ''sensor_update'', env_location = ''kitchen'',
     env_devices = None, env_results = None,
     env_sensors = Some \<lparr>view_real_data = True, view_source = ''esp8266_real_sensors'',
       view_temperature = 30, view_humidity = 40, view_co2 = 900, view_voc = 100,
       view_light_level = 50, view_motion = True\<rparr>,
     env_device = ''null'', env_message = ''null''\<rparr> \<noteq> TARGET_ROOM"
    by (simp add: TARGET_ROOM_def)
  then show ?thesis
    using handleMessage_only_logs [of kitchen_update polled_at_5s]
    by (simp add: kitchen_update_def) (simp add: polled_at_5s_def boot_def TARGET_ROOM_def)
qed

subsection \<open>C6: the range of an accepted AHT21 reading\<close>

text \<open>
  C6. When \<open>readAHT21\<close> reports success, the temperature and humidity it stored are the
  ones decoded from the six bytes, and they lie in \<open>[-40, 85]\<close> and \<open>[0, 100]\<close>. When the
  decoded temperature or humidity is outside these ranges the driver reports failure,
  and every failure leaves \<open>g_temperature\<close> and \<open>g_humidity\<close> as they were.
\<close>

theorem readAHT21_plausible:
  "(fst (readAHT21 io s) \<longrightarrow>
      (\<exists>d0 d1 d2 d3 d4 d5. requestFrom 6 (aht_answer io) = [d0, d1, d2, d3, d4, d5] \<and>
         g_temperature (snd (readAHT21 io s)) = aht21_temperature (aht21_temperature_raw d3 d4 d5) \<and>
         g_humidity (snd (readAHT21 io s)) = aht21_humidity (aht21_humidity_raw d1 d2 d3)) \<and>
      - 40 \<le> g_temperature (snd (readAHT21 io s)) \<and> g_temperature (snd (readAHT21 io s)) \<le> 85 \<and>
      0 \<le> g_humidity (snd (readAHT21 io s)) \<and> g_humidity (snd (readAHT21 io s)) \<le> 100) \<and>
   (\<forall>d0 d1 d2 d3 d4 d5. requestFrom 6 (aht_answer io) = [d0, d1, d2, d3, d4, d5] \<and>
      \<not> (- 40 \<le> aht21_temperature (aht21_temperature_raw d3 d4 d5) \<and>
         aht21_temperature (aht21_temperature_raw d3 d4 d5) \<le> 85 \<and>
         0 \<le> aht21_humidity (aht21_humidity_raw d1 d2 d3) \<and>
         aht21_humidity (aht21_humidity_raw d1 d2 d3) \<le> 100) \<longrightarrow>
      \<not> fst (readAHT21 io s)) \<and>
   (\<not> fst (readAHT21 io s) \<longrightarrow>
      g_temperature (snd (readAHT21 io s)) = g_temperature s \<and>
      g_humidity (snd (readAHT21 io s)) = g_humidity s)"
proof (cases rule: readAHT21_cases [of io s])
  case 1
  then show ?thesis by (auto simp: print_def)
next
  case (2 d0 d1 d2 d3 d4 d5)
  then show ?thesis by (simp add: print_def)
next
  case (3 d0 d1 d2 d3 d4 d5)
  then show ?thesis by (simp add: print_def)
next
  case (4 d0 d1 d2 d3 d4 d5)
  then show ?thesis by (auto simp: print_def)
qed

text \<open>
  An answer that decodes to 25 C and 50 % is stored; one that decodes to 150 C is
  refused and the initial 23.5 C and 55 % stay.
\<close>

theorem readAHT21_plausible_witness:
  "fst (readAHT21 aht21_50_25 boot) \<and>
   g_temperature (snd (readAHT21 aht21_50_25 boot)) = 25 \<and>
   g_humidity (snd (readAHT21 aht21_50_25 boot)) = 50 \<and>
   \<not> fst (readAHT21 aht21_hot boot) \<and>
   g_temperature (snd (readAHT21 aht21_hot boot)) = 23.5 \<and>
   g_humidity (snd (readAHT21 aht21_hot boot)) = 55"
proof -
  have a: "fst (readAHT21 aht21_50_25 boot)" by (simp add: readAHT21_50_25)
  have d: "requestFrom 6 (aht_answer aht21_50_25) = [0x1C, 0x80, 0x00, 0x06, 0x00, 0x00]"
    by (simp add: aht21_50_25_def requestFrom_def)
  have raw: "aht21_temperature_raw 0x06 0x00 0x00 = 393216" "aht21_humidity_raw 0x80 0x00 0x06 = 524288"
    by (simp_all add: aht21_temperature_raw_def aht21_humidity_raw_def)
  have b: "g_temperature (snd (readAHT21 aht21_50_25 boot)) = 25 \<and>
    g_humidity (snd (readAHT21 aht21_50_25 boot)) = 50"
    using readAHT21_plausible [of aht21_50_25 boot] a d raw
    by (auto simp: aht21_temperature_25 aht21_humidity_half)
  have h: "requestFrom 6 (aht_answer aht21_hot) = [0x1C, 0x80, 0x00, 0x0F, 0xFF, 0xFF]"
    by (simp add: aht21_hot_def requestFrom_def)
  have rawh: "aht21_temperature_raw 0x0F 0xFF 0xFF = 1048575"
    by (simp add: aht21_temperature_raw_def)
  have c: "\<not> fst (readAHT21 aht21_hot boot)"
    using readAHT21_plausible [of aht21_hot boot] h rawh
    by (simp add: aht21_temperature_150)
  then have e: "g_temperature (snd (readAHT21 aht21_hot boot)) = 23.5 \<and>
    g_humidity (snd (readAHT21 aht21_hot boot)) = 55"
    using readAHT21_plausible [of aht21_hot boot] by (simp add: boot_def)
  show ?thesis using a b c e by blast
qed

subsection \<open>C7: the aggregator and the validity state\<close>

text \<open>
  C7. One call of \<open>readAllSensors\<close> runs the three enabled drivers in turn and returns
  whether any of them succeeded. If one did, \<open>g_sensor_data_valid\<close> is true afterwards and
  \<open>g_last_sensor_update\<close> is the value of \<open>millis()\<close>; if none did, both are as before the
  call. Either way \<open>g_motion\<close> is set from a fresh draw of \<open>random(0, 100)\<close>, true when the
  draw is below 5.
\<close>

theorem readAllSensors_validity:
  "\<exists>ok1 s1 ok2 s2 ok3 s3 s'.
     readAHT21 (aht21 io) (print ''reading all sensor data...'' [] s) = (ok1, s1) \<and>
     readENS160 (ens160 io) s1 = (ok2, s2) \<and>
     readGL5539 (adc io) s2 = Inr (ok3, s3) \<and>
     readAllSensors io s = Inr (ok1 \<or> ok2 \<or> ok3, s') \<and>
     (ok1 \<or> ok2 \<or> ok3 \<longrightarrow>
        g_sensor_data_valid s' \<and> g_last_sensor_update s' = poll_millis io) \<and>
     (\<not> (ok1 \<or> ok2 \<or> ok3) \<longrightarrow>
        g_sensor_data_valid s' = g_sensor_data_valid s \<and>
        g_last_sensor_update s' = g_last_sensor_update s) \<and>
     g_motion s' = (random 0 100 (motion_raw io) < 5)"
proof -
  obtain ok1 s1 ok2 s2 ok3 s3 where d:
    "readAHT21 (aht21 io) (print ''reading all sensor data...'' [] s) = (ok1, s1)"
    "readENS160 (ens160 io) s1 = (ok2, s2)"
    "readGL5539 (adc io) s2 = Inr (ok3, s3)"
    and f: "g_sensor_data_valid s3 = g_sensor_data_valid s"
    "g_last_sensor_update s3 = g_last_sensor_update s"
    by (rule drivers_run)
  show ?thesis
  proof (cases "ok1 \<or> ok2 \<or> ok3")
    case True
    then have "readAllSensors io s = Inr (ok1 \<or> ok2 \<or> ok3,
       print ''summary - temperature: %.1f C, humidity: %.1f%%, CO2: %d ppm, VOC: %d ppb, light: %d lux, motion: %s''
         [AFloat (g_temperature s3), AFloat (g_humidity s3), AInt (g_co2 s3),
          AInt (g_voc s3), AInt (g_light_level s3), ABool (random 0 100 (motion_raw io) < 5)]
         (print ''sensor data update complete'' []
           (s3\<lparr>g_motion := (random 0 100 (motion_raw io) < 5), g_sensor_data_valid := True,
               g_last_sensor_update := poll_millis io\<rparr>)))"
      unfolding readAllSensors_unfold [OF d] by simp
    then show ?thesis using d True by (intro exI conjI) (assumption+, simp_all add: print_def)
  next
    case False
    then have "readAllSensors io s = Inr (ok1 \<or> ok2 \<or> ok3,
       print ''no sensor data was read'' []
                 (s3\<lparr>g_motion := (random 0 100 (motion_raw io) < 5)\<rparr>))"
      unfolding readAllSensors_unfold [OF d] by simp
    then show ?thesis using d False f by (intro exI conjI) (assumption+, simp_all add: print_def)
  qed
qed

text \<open>
  A cycle in which every driver succeeds, from the initial state, and a cycle in which
  none does, from a state that was valid: the first stamps validity and time, the second
  leaves both alone.
\<close>

theorem readAllSensors_validity_witness:
  "(\<exists>s'. readAllSensors poll_good boot = Inr (True, s') \<and>
      g_sensor_data_valid s' \<and> g_last_sensor_update s' = 5000 \<and> g_motion s') \<and>
   (\<exists>s'. readAllSensors poll_dead polled_at_5s = Inr (False, s') \<and>
      g_sensor_data_valid s' \<and> g_last_sensor_update s' = 5000 \<and> \<not> g_motion s')"
proof -
  have m: "random 0 100 (motion_raw poll_good) < 5" "\<not> random 0 100 (motion_raw poll_dead) < 5"
    by (simp_all add: random_def poll_good_def poll_dead_def)
  have t: "poll_millis poll_good = 5000" by (simp add: poll_good_def)
  have a: "\<exists>s'. readAllSensors poll_good boot = Inr (True, s') \<and>
      g_sensor_data_valid s' \<and> g_last_sensor_update s' = 5000 \<and> g_motion s'"
    using readAllSensors_validity [of poll_good boot]
      poll_good_drivers(1) [of "print ''reading all sensor data...'' [] boot"] m t
    by auto
  have b: "\<exists>s'. readAllSensors poll_dead polled_at_5s = Inr (False, s') \<and>
      g_sensor_data_valid s' \<and> g_last_sensor_update s' = 5000 \<and> \<not> g_motion s'"
    using readAllSensors_validity [of poll_dead polled_at_5s] m
    by (auto simp: poll_dead_drivers polled_at_5s_def)
  show ?thesis using a b by blast
qed

subsection \<open>C8: sends while disconnected\<close>

text \<open>
  C8, as amended. Whenever \<open>wsConnected\<close> is false, \<open>sendSensorData\<close> and \<open>sendPing\<close> return
  without handing anything to the transport and without changing any variable of the
  program; nothing is queued. \<open>sendSensorData\<close> prints one warning to \<open>Serial\<close>, and
  \<open>sendPing\<close> prints nothing: it leaves the whole state as it is.
\<close>

theorem sends_dropped_when_disconnected:
  assumes "\<not> wsConnected s"
  shows "sendSensorData io s =
           s\<lparr>serial := serial s @ [Line ''Cannot send sensor data - not connected'' []]\<rparr>
         \<and> sendPing pio s = s"
  using assms by (simp add: sendSensorData_def sendPing_def print_def)

text \<open>
  At the initial state, which is disconnected, the sensor report is dropped with the
  warning and the ping is dropped with no trace.
\<close>

theorem sends_dropped_when_disconnected_witness:
  "\<not> wsConnected boot \<and>
   sendSensorData send_66s boot =
     boot\<lparr>serial := [Line ''Cannot send sensor data - not connected'' []]\<rparr> \<and>
   sendPing ping_66s boot = boot"
  using sends_dropped_when_disconnected [of boot send_66s ping_66s] by (simp add: boot_def)

text \<open>
  C8 as stated asks for a logged warning from every send while disconnected. The ping
  dropped at the initial state leaves \<open>Serial\<close> as it was.
\<close>

theorem sendPing_silent_counterexample:
  "\<not> wsConnected boot \<and> serial (sendPing ping_66s boot) = serial boot"
  by (simp add: sendPing_def boot_def)

subsection \<open>C9: the composer without valid data\<close>

text \<open>
  C9, as amended. For every connected state with \<open>g_sensor_data_valid\<close> false,
  \<open>sendSensorData\<close> hands the transport one complete envelope: type \<open>control\<close>, one command
  of device \<open>sensors\<close> and action \<open>data_update\<close> for the room, and the ten parameters,
  with source \<open>esp8266_simulated\<close> and data type \<open>simulated\<close>. The synthesised values lie in
  their ranges: temperature in \<open>[23, 24]\<close>, humidity in \<open>[53, 57]\<close>, CO2 in \<open>[370, 500]\<close>,
  VOC in \<open>[5, 40]\<close>, light level in \<open>[200, 600]\<close>.
\<close>

theorem sendSensorData_simulated:
  assumes "wsConnected s" and "\<not> g_sensor_data_valid s"
  shows "\<exists>temperature humidity co2 voc light_level motion.
     ws_tx (sendSensorData io s) = ws_tx s @
       [JObj [(''type'', JStr ''control''),
              (''commands'', JArr [JObj
                 [(''device'', JStr ''sensors''),
                  (''action'', JStr ''data_update''),
                  (''location'', JStr TARGET_ROOM),
                  (''parameters'', JObj
                     [(''temperature'', JNum temperature),
                      (''humidity'', JNum humidity),
                      (''co2'', JInt co2),
                      (''voc'', JInt voc),
                      (''light_level'', JInt light_level),
                      (''motion'', JBool motion),
                      (''device_id'', JStr (mac_address io)),
                      (''source'', JStr ''esp8266_simulated''),
                      (''data_type'', JStr ''simulated''),
                      (''timestamp'', JInt (uint (stamp_millis io)))])]])]] \<and>
     23 \<le> temperature \<and> temperature \<le> 24 \<and>
     53 \<le> humidity \<and> humidity \<le> 57 \<and>
     370 \<le> co2 \<and> co2 \<le> 500 \<and>
     5 \<le> voc \<and> voc \<le> 40 \<and>
     200 \<le> light_level \<and> light_level \<le> 600"
proof -
  define temperature where
    "temperature = f32 (f64 (23.5 + f64 (of_int (random (- 50) 50 (raw_temperature io)) / 100)))"
  define humidity where
    "humidity = f32 (f64 (55 + f64 (of_int (random (- 200) 200 (raw_humidity io)) / 100)))"
  define co2 where "co2 = 420 + random (- 50) 80 (raw_co2 io)"
  define voc where "voc = 15 + random (- 10) 25 (raw_voc io)"
  define light_level where "light_level = 300 + random (- 100) 300 (raw_light io)"
  define motion where "motion = (random 0 100 (raw_motion io) < 10)"
  have tx: "ws_tx (sendSensorData io s) = ws_tx s @
      [sensor_doc temperature humidity co2 voc light_level motion (mac_address io) False
         (stamp_millis io)]"
    using assms
    by (simp add: sendSensorData_tx temperature_def humidity_def co2_def voc_def
          light_level_def motion_def)
  have t: "23 \<le> temperature" "temperature \<le> 24"
    unfolding temperature_def by (rule simulated_temperature_range)+
  have h: "53 \<le> humidity" "humidity \<le> 57"
    unfolding humidity_def by (rule simulated_humidity_range)+
  have c: "370 \<le> co2" "co2 \<le> 500"
    using random_range [of "- 50" 80 "raw_co2 io"] by (simp_all add: co2_def)
  have v: "5 \<le> voc" "voc \<le> 40"
    using random_range [of "- 10" 25 "raw_voc io"] by (simp_all add: voc_def)
  have l: "200 \<le> light_level" "light_level \<le> 600"
    using random_range [of "- 100" 300 "raw_light io"] by (simp_all add: light_level_def)
  show ?thesis
    using tx t h c v l unfolding sensor_doc_def
    by (intro exI [of _ temperature] exI [of _ humidity] exI [of _ co2] exI [of _ voc]
          exI [of _ light_level] exI [of _ motion]) simp
qed

text \<open>The initial state once connected, at the send tick whose draws are all 0.\<close>

theorem sendSensorData_simulated_witness:
  "\<exists>temperature humidity co2 voc light_level motion.
     ws_tx (sendSensorData send_66s (boot\<lparr>wsConnected := True\<rparr>)) =
       [JObj [(''type'', JStr ''control''),
              (''commands'', JArr [JObj
                 [(''device'', JStr ''sensors''),
                  (''action'', JStr ''data_update''),
                  (''location'', JStr ''living_room''),
                  (''parameters'', JObj
                     [(''temperature'', JNum temperature),
                      (''humidity'', JNum humidity),
                      (''co2'', JInt co2),
                      (''voc'', JInt voc),
                      (''light_level'', JInt light_level),
                      (''motion'', JBool motion),
                      (''device_id'', JStr ''5C:CF:7F:00:00:01''),
                      (''source'', JStr ''esp8266_simulated''),
                      (''data_type'', JStr ''simulated''),
                      (''timestamp'', JInt 66000)])]])]] \<and>
     23 \<le> temperature \<and> temperature \<le> 24 \<and>
     53 \<le> humidity \<and> humidity \<le> 57 \<and>
     370 \<le> co2 \<and> co2 \<le> 500 \<and>
     5 \<le> voc \<and> voc \<le> 40 \<and>
     200 \<le> light_level \<and> light_level \<le> 600"
  using sendSensorData_simulated [of "boot\<lparr>wsConnected := True\<rparr>" send_66s]
  by (simp add: boot_def send_66s_def TARGET_ROOM_def)

text \<open>
  C9 as stated has an envelope for every state without valid data. At the initial state,
  which is disconnected, nothing is handed to the transport.
\<close>

theorem sendSensorData_disconnected_counterexample:
  "\<not> g_sensor_data_valid boot \<and> ws_tx (sendSensorData send_66s boot) = []"
  by (simp add: sendSensorData_tx boot_def)

subsection \<open>C10: the photoresistor read\<close>

text \<open>
  C10. For every ADC sample \<open>readGL5539\<close> returns a result and never divides by zero. A
  sample of \<open>GL5539_ADC_MAX - 1\<close> or more is refused before the resistance is computed;
  for any other sample the divisor of the resistance is at least 2, the illuminance follows
  from the resistance by the three bands (1 lux above 50000 Ohm, 2000 lux below 100 Ohm,
  \<open>12.5e6 / R^1.4\<close> between), the read succeeds exactly when the illuminance is in
  \<open>[0, 10000]\<close> and the sample is at least 10, and only a successful read writes
  \<open>g_light_level\<close>.
\<close>

theorem readGL5539_guarded:
  "\<exists>ok s'. readGL5539 adcValue s = Inr (ok, s') \<and>
     (GL5539_ADC_MAX - 1 \<le> adcValue \<longrightarrow>
        \<not> ok \<and> s' = print ''GL5539 read failed: too dark or sensor fault'' [] s) \<and>
     (adcValue < GL5539_ADC_MAX - 1 \<longrightarrow>
        2 \<le> f32 (of_int (GL5539_ADC_MAX - adcValue)) \<and>
        (\<exists>r lux. ldrResistance adcValue = Inr r \<and> lux_of r = Inr lux \<and>
           lux = (if 50000 < r then 1 else if r < 100 then 2000
                  else f32 (f64 (12500000 / pow r (f64 (7 / 5))))) \<and>
           ok = (0 \<le> lux \<and> lux \<le> 10000 \<and> 10 \<le> adcValue) \<and>
           (ok \<longrightarrow> g_light_level s' = to_int lux))) \<and>
     (\<not> ok \<longrightarrow> g_light_level s' = g_light_level s)"
proof (cases adcValue s rule: readGL5539_cases)
  case 1
  then show ?thesis by (auto simp: print_def)
next
  case (2 r lux)
  have "lux_of r = Inr (if 50000 < r then 1 else if r < 100 then 2000
          else f32 (f64 (12500000 / pow r (f64 (7 / 5)))))" by (rule lux_of_bands)
  then show ?thesis using 2 denominator_ge_2 [of adcValue] by (auto simp: print_def)
next
  case (3 r lux)
  have "lux_of r = Inr (if 50000 < r then 1 else if r < 100 then 2000
          else f32 (f64 (12500000 / pow r (f64 (7 / 5)))))" by (rule lux_of_bands)
  then show ?thesis using 3 denominator_ge_2 [of adcValue] by (auto simp: print_def)
qed

text \<open>
  The sample 10 gives a resistance below 100 Ohm, so 2000 lux, and is accepted; the
  sample 9 gives 2000 lux too and is refused as below the noise floor; the sample 1023
  is refused before the division.
\<close>

theorem readGL5539_guarded_witness:
  "(\<exists>s'. readGL5539 10 boot = Inr (True, s') \<and> g_light_level s' = 2000) \<and>
   (\<exists>s'. readGL5539 9 boot = Inr (False, s') \<and> g_light_level s' = 300) \<and>
   (\<exists>s'. readGL5539 1023 boot = Inr (False, s') \<and> g_light_level s' = 300)"
proof -
  have r10: "ldrResistance 10 = Inr (12926233 / 131072)" by code_simp
  have l10: "lux_of (12926233 / 131072) = Inr 2000" by code_simp
  have a: "\<exists>s'. readGL5539 10 boot = Inr (True, s') \<and> g_light_level s' = 2000"
    using readGL5539_guarded [of 10 boot] r10 l10
    by (auto simp: GL5539_ADC_MAX_def to_int_def)
  have b: "\<exists>s'. readGL5539 9 boot = Inr (False, s') \<and> g_light_level s' = 300"
    using readGL5539_guarded [of 9 boot]
    by (auto simp: GL5539_ADC_MAX_def boot_def)
  have c: "\<exists>s'. readGL5539 1023 boot = Inr (False, s') \<and> g_light_level s' = 300"
    using readGL5539_guarded [of 1023 boot]
    by (auto simp: GL5539_ADC_MAX_def boot_def)
  show ?thesis using a b c by blast
qed

end
